theory Spec2Isabelle
  imports Main "HOL-Library.Multiset"
begin

section \<open>Strings and numbers as the route handlers use them\<close>

text \<open>
  Identifiers are MongoDB ObjectIds. The handlers compare them through their
  hexadecimal rendering (\<open>x._id.toString() === y._id.toString()\<close>), so an identifier
  is modelled by that string. Every identifier is taken to be a well-formed ObjectId:
  a malformed one makes \<open>findById\<close> throw a cast error before any of the logic below.
\<close>

type_synonym objectId = string

text \<open>
  \<open>String.prototype.toLowerCase\<close> on the ASCII range (list names are taken to be
  ASCII), and \<open>String.prototype.includes\<close>.
\<close>

definition toLowerCaseChar :: "char \<Rightarrow> char" where
  "toLowerCaseChar c =
     (let n = (of_char c :: nat) in if 65 \<le> n \<and> n \<le> 90 then char_of (n + 32) else c)"

definition toLowerCase :: "string \<Rightarrow> string" where
  "toLowerCase s = map toLowerCaseChar s"

fun js_includes :: "string \<Rightarrow> string \<Rightarrow> bool" where
  "js_includes [] needle = (needle = [])"
| "js_includes (c # cs) needle =
     (take (length needle) (c # cs) = needle \<or> js_includes cs needle)"

text \<open>Template literals print a number in decimal.\<close>

definition digitChar :: "nat \<Rightarrow> char" where
  "digitChar d = char_of (48 + d)"

function showNat :: "nat \<Rightarrow> string" where
  "showNat n = (if n < 10 then [digitChar n] else showNat (n div 10) @ [digitChar (n mod 10)])"
  by pat_completeness auto
termination
  by (relation "measure (\<lambda>n. n)") auto

definition showInt :: "int \<Rightarrow> string" where
  "showInt i = (if i < 0 then CHR ''-'' # showNat (nat (- i)) else showNat (nat i))"

definition dquote :: string where
  "dquote = [CHR 0x22]"

section \<open>Documents: models/Card.js, models/Board.js, models/User.js, and List\<close>

text \<open>
  A date is its number of milliseconds since the epoch (the value of a JavaScript
  \<open>Date\<close>); an absent \<open>dueDate\<close> is \<open>None\<close>. Priority and status are the strings
  the schema stores.
\<close>

record card =
  card_id :: objectId
  card_title :: string
  card_description :: string
  card_list :: objectId
  card_position :: int
  card_dueDate :: "int option"
  card_priority :: string
  card_status :: string
  card_createdBy :: objectId

record user =
  user_id :: objectId
  user_name :: string
  user_email :: string

text \<open>
  Modelled from the spec: models/List.js is not among the sources. The handlers read
  and write the fields \<open>name\<close>, \<open>board\<close>, \<open>position\<close> and \<open>cards\<close> of a List, which
  are the attributes the specification gives it.
\<close>

record list_doc =
  list_id :: objectId
  list_name :: string
  list_board :: objectId
  list_position :: int
  list_cards :: "objectId list"

record board =
  board_id :: objectId
  board_name :: string
  board_description :: string
  board_owner :: objectId
  board_members :: "objectId list"
  board_lists :: "objectId list"

text \<open>
  What \<open>populate({path: 'lists', populate: {path: 'cards'}})\<close> hands to the
  recommendation handler: the board with its lists, each list with its card documents.
\<close>

record plist =
  pl_id :: objectId
  pl_name :: string
  pl_cards :: "card list"

record pboard =
  pb_id :: objectId
  pb_owner :: objectId
  pb_members :: "objectId list"
  pb_lists :: "plist list"

section \<open>The recommendation rules (routes/board.js, GET /:id/recommendations)\<close>

record advisory =
  cardId :: objectId
  cardTitle :: string
  type :: string
  reason :: string
  severity :: string
  action :: string

record recommendations =
  alerts :: "advisory list"
  priority :: "advisory list"
  dueDate :: "advisory list"
  status :: "advisory list"

datatype js_error = TypeError

definition msPerDay :: int where
  "msPerDay = 1000 * 60 * 60 * 24"

text \<open>
  \<open>Math.ceil((dueDate - now) / (1000 * 60 * 60 * 24))\<close>. Both dates are whole
  milliseconds. While their difference stays below 2^53 ms (some 285000 years) it is
  exact, and the rounded quotient of the doubles lies on the same side of every
  integer as the exact quotient, so the ceiling is taken over the integers.
\<close>

definition daysUntilDue :: "int \<Rightarrow> int \<Rightarrow> int" where
  "daysUntilDue due now = - ((- (due - now)) div msPerDay)"

definition hasCard :: "card \<Rightarrow> plist \<Rightarrow> bool" where
  "hasCard crd l = list_ex (\<lambda>c. card_id c = card_id crd) (pl_cards l)"

text \<open>Lines 295 to 314: the Critical rule, the advisories it pushes on \<open>priority\<close>.\<close>

definition criticalPriorityRule :: "pboard \<Rightarrow> card \<Rightarrow> advisory list" where
  "criticalPriorityRule b crd =
     (if card_priority crd = ''Critical'' then
        (case find (\<lambda>l. js_includes (toLowerCase (pl_name l)) ''in progress'') (pb_lists b) of
           None \<Rightarrow> []
         | Some criticalList \<Rightarrow>
             if \<not> hasCard crd criticalList then
               [\<lparr> cardId = card_id crd, cardTitle = card_title crd,
                  type = ''critical_priority'',
                  reason = ''Critical priority task should be in progress immediately'',
                  severity = ''high'',
                  action = ''Move to '' @ dquote @ ''In Progress'' @ dquote @ '' list'' \<rparr>]
             else [])
      else [])"

text \<open>Lines 316 to 335: the High rule.\<close>

definition highPriorityRule :: "pboard \<Rightarrow> card \<Rightarrow> advisory list" where
  "highPriorityRule b crd =
     (if card_priority crd = ''High'' then
        (case find (\<lambda>l. js_includes (toLowerCase (pl_name l)) ''todo''
                          \<or> js_includes (toLowerCase (pl_name l)) ''backlog'') (pb_lists b) of
           None \<Rightarrow> []
         | Some todoList \<Rightarrow>
             if hasCard crd todoList then
               [\<lparr> cardId = card_id crd, cardTitle = card_title crd,
                  type = ''high_priority_waiting'',
                  reason = ''High priority task is waiting in backlog'',
                  severity = ''medium'',
                  action = ''Consider moving to '' @ dquote @ ''In Progress'' @ dquote
                             @ '' if resources allow'' \<rparr>]
             else [])
      else [])"

text \<open>Lines 337 to 389: the due-date chain.\<close>

definition dueDateRule :: "int \<Rightarrow> card \<Rightarrow> advisory list" where
  "dueDateRule now crd =
     (case card_dueDate crd of
        Some due \<Rightarrow>
          (let d = daysUntilDue due now in
           if d < 0 then
             (if card_status crd \<noteq> ''Done'' then
                [\<lparr> cardId = card_id crd, cardTitle = card_title crd,
                   type = ''overdue'',
                   reason = ''Task was due '' @ showInt (abs d)
                              @ '' day(s) ago but is not completed'',
                   severity = (if card_priority crd = ''Critical'' then ''high'' else ''medium''),
                   action = (if card_status crd = ''Blocked''
                             then ''Resolve blocking issues and complete task''
                             else ''Complete task immediately'') \<rparr>]
              else [])
           else if d \<le> 2 then
             (if card_status crd \<noteq> ''Done'' \<and> card_status crd \<noteq> ''In Progress'' then
                [\<lparr> cardId = card_id crd, cardTitle = card_title crd,
                   type = ''due_soon'',
                   reason = ''Task is due in '' @ showInt d
                              @ '' day(s) but not yet in progress'',
                   severity = (if card_priority crd = ''Critical'' then ''high'' else ''medium''),
                   action = ''Move to '' @ dquote @ ''In Progress'' @ dquote
                              @ '' and prioritize completion'' \<rparr>]
              else [])
           else if d \<le> 7 \<and> card_status crd = ''Backlog'' then
             [\<lparr> cardId = card_id crd, cardTitle = card_title crd,
                type = ''upcoming_deadline'',
                reason = ''Task due in '' @ showInt d @ '' days is still in backlog'',
                severity = ''low'',
                action = ''Consider starting work or adjusting timeline'' \<rparr>]
           else [])
      | None \<Rightarrow>
          (if card_priority crd = ''Critical'' \<or> card_priority crd = ''High'' then
             [\<lparr> cardId = card_id crd, cardTitle = card_title crd,
                type = ''no_due_date_high_priority'',
                reason = card_priority crd @ '' priority task has no due date'',
                severity = (if card_priority crd = ''Critical'' then ''medium'' else ''low''),
                action = ''Set a realistic due date for proper planning'' \<rparr>]
           else []))"

text \<open>Lines 396 to 423: a card in progress, against its due date.\<close>

definition inProgressRule :: "int \<Rightarrow> card \<Rightarrow> advisory list" where
  "inProgressRule now crd =
     (if card_status crd = ''In Progress'' then
        (case card_dueDate crd of
           Some due \<Rightarrow>
             (let d = daysUntilDue due now in
              if d < 0 then
                [\<lparr> cardId = card_id crd, cardTitle = card_title crd,
                   type = ''in_progress_overdue'',
                   reason = ''Task is in progress but past due date'',
                   severity = ''high'',
                   action = ''Complete immediately or escalate'' \<rparr>]
              else if d \<le> 1 then
                [\<lparr> cardId = card_id crd, cardTitle = card_title crd,
                   type = ''in_progress_due_soon'',
                   reason = ''In progress task due in '' @ showInt d @ '' day(s)'',
                   severity = ''medium'',
                   action = ''Focus on completing this task'' \<rparr>]
              else [])
         | None \<Rightarrow> [])
      else [])"

text \<open>Lines 425 to 434.\<close>

definition blockedRule :: "card \<Rightarrow> advisory list" where
  "blockedRule crd =
     (if card_status crd = ''Blocked'' then
        [\<lparr> cardId = card_id crd, cardTitle = card_title crd,
           type = ''blocked_task'',
           reason = ''Task is blocked and needs attention'',
           severity = ''medium'',
           action = ''Identify and resolve blocking issues'' \<rparr>]
      else [])"

text \<open>Lines 436 to 445.\<close>

definition criticalTodoRule :: "card \<Rightarrow> advisory list" where
  "criticalTodoRule crd =
     (if card_status crd = ''Todo'' \<and> card_priority crd = ''Critical'' then
        [\<lparr> cardId = card_id crd, cardTitle = card_title crd,
           type = ''critical_in_todo'',
           reason = ''Critical priority task should not remain in Todo'',
           severity = ''high'',
           action = ''Move to '' @ dquote @ ''In Progress'' @ dquote @ '' immediately'' \<rparr>]
      else [])"

text \<open>
  Lines 391 to 394 and 447 to 466. \<open>board.lists[board.lists.findIndex(...)]\<close> is
  \<open>undefined\<close> when no list holds the card (index -1), and reading \<open>.name\<close> of it
  throws a TypeError; the conjunction reads it only for a card whose status is Done.
\<close>

definition currentList :: "pboard \<Rightarrow> card \<Rightarrow> plist option" where
  "currentList b crd = find (hasCard crd) (pb_lists b)"

definition moveToDoneRule :: "pboard \<Rightarrow> card \<Rightarrow> js_error + advisory list" where
  "moveToDoneRule b crd =
     (if card_status crd = ''Done'' then
        (case currentList b crd of
           None \<Rightarrow> Inl TypeError
         | Some cur \<Rightarrow>
             if \<not> js_includes (toLowerCase (pl_name cur)) ''done'' then
               (case find (\<lambda>l. js_includes (toLowerCase (pl_name l)) ''done''
                                 \<or> js_includes (toLowerCase (pl_name l)) ''complete'') (pb_lists b) of
                  None \<Rightarrow> Inr []
                | Some doneList \<Rightarrow>
                    Inr [\<lparr> cardId = card_id crd, cardTitle = card_title crd,
                           type = ''move_to_done'',
                           reason = ''Completed task should be moved to Done list'',
                           severity = ''low'',
                           action = ''Move to completed tasks list'' \<rparr>])
             else Inr [])
      else Inr [])"

text \<open>
  The body of \<open>allCards.forEach((card) => ...)\<close>: every \<open>push\<close> appends to one of
  the four arrays of \<open>recommendations\<close>, in the order of the source.
\<close>

definition cardRules :: "pboard \<Rightarrow> int \<Rightarrow> card \<Rightarrow> recommendations \<Rightarrow> js_error + recommendations" where
  "cardRules b now crd r0 =
     (let r1 = r0\<lparr>priority := priority r0 @ criticalPriorityRule b crd\<rparr>;
          r2 = r1\<lparr>priority := priority r1 @ highPriorityRule b crd\<rparr>;
          r3 = r2\<lparr>dueDate := dueDate r2 @ dueDateRule now crd\<rparr>;
          r4 = r3\<lparr>status := status r3 @ inProgressRule now crd\<rparr>;
          r5 = r4\<lparr>status := status r4 @ blockedRule crd\<rparr>;
          r6 = r5\<lparr>status := status r5 @ criticalTodoRule crd\<rparr>
      in case moveToDoneRule b crd of
           Inl e \<Rightarrow> Inl e
         | Inr as \<Rightarrow> Inr (r6\<lparr>alerts := alerts r6 @ as\<rparr>))"

fun forEach :: "('a \<Rightarrow> 's \<Rightarrow> js_error + 's) \<Rightarrow> 'a list \<Rightarrow> 's \<Rightarrow> js_error + 's" where
  "forEach f [] s = Inr s"
| "forEach f (x # xs) s = (case f x s of Inl e \<Rightarrow> Inl e | Inr s' \<Rightarrow> forEach f xs s')"

text \<open>Lines 287 to 290.\<close>

definition allCards :: "pboard \<Rightarrow> card list" where
  "allCards b = concat (map pl_cards (pb_lists b))"

text \<open>
  Lines 469 to 477. \<open>severityOrder[s]\<close> is \<open>undefined\<close> for any other string, the
  difference is then \<open>NaN\<close>, which \<open>sort\<close> reads as 0.
\<close>

definition severityOrder :: "string \<Rightarrow> int option" where
  "severityOrder s =
     (if s = ''high'' then Some 3 else if s = ''medium'' then Some 2
      else if s = ''low'' then Some 1 else None)"

definition compareSeverity :: "advisory \<Rightarrow> advisory \<Rightarrow> int" where
  "compareSeverity a b =
     (case (severityOrder (severity b), severityOrder (severity a)) of
        (Some m, Some n) \<Rightarrow> m - n
      | _ \<Rightarrow> 0)"

text \<open>
  \<open>Array.prototype.sort(compare)\<close> is a stable sort: an element stays in front of a
  later one unless \<open>compare\<close> puts it strictly behind. For a consistent comparison the
  result is unique, and insertion from the right computes it.
\<close>

fun insertBy :: "('a \<Rightarrow> 'a \<Rightarrow> int) \<Rightarrow> 'a \<Rightarrow> 'a list \<Rightarrow> 'a list" where
  "insertBy cmp x [] = [x]"
| "insertBy cmp x (y # ys) = (if cmp x y \<le> 0 then x # y # ys else y # insertBy cmp x ys)"

fun js_sort :: "('a \<Rightarrow> 'a \<Rightarrow> int) \<Rightarrow> 'a list \<Rightarrow> 'a list" where
  "js_sort cmp [] = []"
| "js_sort cmp (x # xs) = insertBy cmp x (js_sort cmp xs)"

definition emptyRecommendations :: recommendations where
  "emptyRecommendations = \<lparr> alerts = [], priority = [], dueDate = [], status = [] \<rparr>"

definition recommendationEngine :: "pboard \<Rightarrow> int \<Rightarrow> js_error + advisory list" where
  "recommendationEngine b now =
     (case forEach (cardRules b now) (allCards b) emptyRecommendations of
        Inl e \<Rightarrow> Inl e
      | Inr r \<Rightarrow>
          Inr (js_sort compareSeverity (alerts r @ priority r @ dueDate r @ status r)))"

text \<open>
  The rule groups as the handler concatenates them (lines 469 to 474): alerts,
  priority, dueDate, status; inside a group the advisories stand in the order in which
  \<open>forEach\<close> visits the cards.
\<close>

definition alertsOf :: "pboard \<Rightarrow> card \<Rightarrow> advisory list" where
  "alertsOf b crd = (case moveToDoneRule b crd of Inl e \<Rightarrow> [] | Inr as \<Rightarrow> as)"

definition priorityOf :: "pboard \<Rightarrow> card \<Rightarrow> advisory list" where
  "priorityOf b crd = criticalPriorityRule b crd @ highPriorityRule b crd"

definition statusOf :: "int \<Rightarrow> card \<Rightarrow> advisory list" where
  "statusOf now crd = inProgressRule now crd @ blockedRule crd @ criticalTodoRule crd"

definition concatenation :: "pboard \<Rightarrow> int \<Rightarrow> advisory list" where
  "concatenation b now =
     concat (map (alertsOf b) (allCards b)) @ concat (map (priorityOf b) (allCards b))
       @ concat (map (dueDateRule now) (allCards b)) @ concat (map (statusOf now) (allCards b))"

definition severityRank :: "advisory \<Rightarrow> int" where
  "severityRank a = (case severityOrder (severity a) of Some n \<Rightarrow> n | None \<Rightarrow> 0)"

definition dueDateTypes :: "string list" where
  "dueDateTypes = [''overdue'', ''due_soon'', ''upcoming_deadline'', ''no_due_date_high_priority'']"

definition dueDateAdvisoriesFor :: "objectId \<Rightarrow> advisory list \<Rightarrow> advisory list" where
  "dueDateAdvisoriesFor i out = filter (\<lambda>a. cardId a = i \<and> type a \<in> set dueDateTypes) out"

definition inProgressName :: "plist \<Rightarrow> bool" where
  "inProgressName l = js_includes (toLowerCase (pl_name l)) ''in progress''"

section \<open>The collections and the other handlers of routes/board.js\<close>

text \<open>
  A collection is the list of its documents; \<open>findById\<close> returns the document with
  the identifier, \<open>null\<close> (\<open>None\<close>) when there is none. A response other than
  success is \<open>res.status(n).json({ message })\<close>; an exception thrown inside the
  \<open>try\<close> block ends in the \<open>catch\<close>, which answers 500 with "Server error".
\<close>

record db =
  db_users :: "user list"
  db_boards :: "board list"
  db_lists :: "list_doc list"
  db_cards :: "card list"

datatype failure = Failure nat string

definition serverError :: failure where
  "serverError = Failure 500 ''Server error''"

definition findById :: "('a \<Rightarrow> objectId) \<Rightarrow> 'a list \<Rightarrow> objectId \<Rightarrow> 'a option" where
  "findById idOf coll i = find (\<lambda>d. idOf d = i) coll"

fun updateFirst :: "('a \<Rightarrow> bool) \<Rightarrow> ('a \<Rightarrow> 'a) \<Rightarrow> 'a list \<Rightarrow> 'a list" where
  "updateFirst p f [] = []"
| "updateFirst p f (x # xs) = (if p x then f x # xs else x # updateFirst p f xs)"

text \<open>\<open>findByIdAndUpdate\<close>, and \<open>save\<close> of a document that was loaded before.\<close>

definition findByIdAndUpdate :: "('a \<Rightarrow> objectId) \<Rightarrow> objectId \<Rightarrow> ('a \<Rightarrow> 'a) \<Rightarrow> 'a list \<Rightarrow> 'a list" where
  "findByIdAndUpdate idOf i f coll = updateFirst (\<lambda>d. idOf d = i) f coll"

definition saveDoc :: "('a \<Rightarrow> objectId) \<Rightarrow> 'a \<Rightarrow> 'a list \<Rightarrow> 'a list" where
  "saveDoc idOf d coll = updateFirst (\<lambda>x. idOf x = idOf d) (\<lambda>x. d) coll"

text \<open>
  The inline test of the handlers,
  \<open>board.owner.toString() !== req.user.id && !board.members.some((m) => m._id.toString() === req.user.id)\<close>,
  on a board whose \<open>owner\<close> and \<open>members\<close> are ObjectIds; \<open>canAccess\<close> is its negation.
\<close>

definition accessDenied :: "board \<Rightarrow> objectId \<Rightarrow> bool" where
  "accessDenied b reqUser =
     (board_owner b \<noteq> reqUser \<and> \<not> list_ex (\<lambda>m. m = reqUser) (board_members b))"

definition canAccess :: "board \<Rightarrow> objectId \<Rightarrow> bool" where
  "canAccess b reqUser = (\<not> accessDenied b reqUser)"

text \<open>
  \<open>populate\<close>: every reference is replaced by its document; a reference to a document
  that does not exist is dropped from a populated array, and is \<open>null\<close> for a single
  reference.
\<close>

definition populateCards :: "db \<Rightarrow> objectId list \<Rightarrow> card list" where
  "populateCards d ids = List.map_filter (findById card_id (db_cards d)) ids"

definition populateList :: "db \<Rightarrow> list_doc \<Rightarrow> plist" where
  "populateList d l =
     \<lparr> pl_id = list_id l, pl_name = list_name l, pl_cards = populateCards d (list_cards l) \<rparr>"

definition populateLists :: "db \<Rightarrow> objectId list \<Rightarrow> plist list" where
  "populateLists d ids = map (populateList d) (List.map_filter (findById list_id (db_lists d)) ids)"

definition populateBoard :: "db \<Rightarrow> board \<Rightarrow> pboard" where
  "populateBoard d b =
     \<lparr> pb_id = board_id b, pb_owner = board_owner b, pb_members = board_members b,
        pb_lists = populateLists d (board_lists b) \<rparr>"

text \<open>GET /:id/recommendations (lines 263 to 484); \<open>now\<close> is \<open>new Date()\<close>.\<close>

definition getRecommendations :: "db \<Rightarrow> objectId \<Rightarrow> objectId \<Rightarrow> int \<Rightarrow> failure + advisory list" where
  "getRecommendations d reqUser boardId now =
     (case findById board_id (db_boards d) boardId of
        None \<Rightarrow> Inl (Failure 403 ''Access denied'')
      | Some b \<Rightarrow>
          if accessDenied b reqUser then Inl (Failure 403 ''Access denied'')
          else (case recommendationEngine (populateBoard d b) now of
                  Inl e \<Rightarrow> Inl serverError
                | Inr recs \<Rightarrow> Inr recs))"

text \<open>
  GET /:id (lines 49 to 81). Here \<open>owner\<close> and \<open>members\<close> are populated before the
  test, so \<open>board.owner\<close> is a User document (\<open>null\<close> if that user is gone, and then
  \<open>board.owner.toString()\<close> throws). The \<open>toString\<close> of a Mongoose document is its
  \<open>inspect\<close> rendering, an object literal in braces. Its exact layout varies with the
  library version; what the test depends on is that it is never the bare identifier.
\<close>

definition squote :: string where
  "squote = [CHR 0x27]"

definition documentToString :: "user \<Rightarrow> string" where
  "documentToString u =
     ''{ _id: new ObjectId('' @ squote @ user_id u @ squote @ ''), name: '' @ squote @ user_name u
       @ squote @ '', email: '' @ squote @ user_email u @ squote @ '' }''"

record board_view =
  bv_id :: objectId
  bv_owner :: user
  bv_members :: "user list"
  bv_lists :: "plist list"

definition getBoard :: "db \<Rightarrow> objectId \<Rightarrow> objectId \<Rightarrow> failure + board_view" where
  "getBoard d reqUser boardId =
     (case findById board_id (db_boards d) boardId of
        None \<Rightarrow> Inl (Failure 404 ''Board not found'')
      | Some b \<Rightarrow>
          (case findById user_id (db_users d) (board_owner b) of
             None \<Rightarrow> Inl serverError
           | Some ownerDoc \<Rightarrow>
               (let members = List.map_filter (findById user_id (db_users d)) (board_members b) in
                if documentToString ownerDoc \<noteq> reqUser
                   \<and> \<not> list_ex (\<lambda>m. user_id m = reqUser) members
                then Inl (Failure 403 ''Access denied'')
                else Inr \<lparr> bv_id = board_id b, bv_owner = ownerDoc, bv_members = members,
                           bv_lists = populateLists d (board_lists b) \<rparr>)))"

text \<open>
  POST /:id/invite (lines 83 to 127). \<open>board.members.includes\<close> is the Mongoose array
  method, which compares ObjectIds by value. The User schema has no \<open>boards\<close> path (it
  is commented out in models/User.js), so the array pushed onto \<open>userToInvite.boards\<close>
  is not part of what \<open>userToInvite.save()\<close> writes: only the board changes.
\<close>

definition invite :: "db \<Rightarrow> objectId \<Rightarrow> objectId \<Rightarrow> string \<Rightarrow> (failure + string) \<times> db" where
  "invite d reqUser boardId email =
     (case findById board_id (db_boards d) boardId of
        None \<Rightarrow> (Inl (Failure 404 ''Board not found''), d)
      | Some b \<Rightarrow>
          if board_owner b \<noteq> reqUser
          then (Inl (Failure 403 ''Only board owner can invite users''), d)
          else (case find (\<lambda>u. user_email u = email) (db_users d) of
                  None \<Rightarrow> (Inl (Failure 404 ''User not found''), d)
                | Some userToInvite \<Rightarrow>
                    if user_id userToInvite \<in> set (board_members b)
                    then (Inl (Failure 400 ''User already in board''), d)
                    else (Inr ''User invited successfully'',
                          d\<lparr>db_boards := saveDoc board_id
                               (b\<lparr>board_members := board_members b @ [user_id userToInvite]\<rparr>)
                               (db_boards d)\<rparr>)))"

text \<open>
  Modelled from the spec: the validation of models/List.js, which is not among the
  sources. The specification makes a missing name a validation error, which \<open>save\<close>
  throws (an empty string stands for a missing name). The rest is POST /:boardId/lists
  (lines 129 to 164): \<open>newId\<close> is the ObjectId that \<open>new List\<close> generates, and
  inserting a document whose identifier is taken is a duplicate-key error.
\<close>

definition createList :: "db \<Rightarrow> objectId \<Rightarrow> objectId \<Rightarrow> string \<Rightarrow> objectId \<Rightarrow> (failure + list_doc) \<times> db" where
  "createList d reqUser boardId name newId =
     (case findById board_id (db_boards d) boardId of
        None \<Rightarrow> (Inl (Failure 403 ''Access denied''), d)
      | Some b \<Rightarrow>
          if accessDenied b reqUser then (Inl (Failure 403 ''Access denied''), d)
          else
            (let listCount = length (filter (\<lambda>l. list_board l = boardId) (db_lists d));
                 lst = \<lparr> list_id = newId, list_name = name, list_board = boardId,
                         list_position = int listCount, list_cards = [] \<rparr>
             in if name = [] \<or> findById list_id (db_lists d) newId \<noteq> None
                then (Inl serverError, d)
                else (Inr lst,
                      d\<lparr>db_lists := db_lists d @ [lst],
                        db_boards := saveDoc board_id (b\<lparr>board_lists := board_lists b @ [newId]\<rparr>)
                                       (db_boards d)\<rparr>)))"

text \<open>
  POST /:boardId/lists/:listId/cards (lines 166 to 217). \<open>dueDate\<close> is the parsed
  date of the request, \<open>None\<close> when the request has none; \<open>title\<close> is required by
  models/Card.js, priority and status take the defaults of the schema.
\<close>

definition createCard ::
  "db \<Rightarrow> objectId \<Rightarrow> objectId \<Rightarrow> objectId \<Rightarrow> string \<Rightarrow> string \<Rightarrow> int option \<Rightarrow> objectId
     \<Rightarrow> (failure + card) \<times> db" where
  "createCard d reqUser boardId listId title description due newId =
     (case (findById board_id (db_boards d) boardId, findById list_id (db_lists d) listId) of
        (Some b, Some l) \<Rightarrow>
          if list_board l \<noteq> boardId then (Inl (Failure 404 ''Board or list not found''), d)
          else if accessDenied b reqUser then (Inl (Failure 403 ''Access denied''), d)
          else
            (let cardCount = length (filter (\<lambda>c. card_list c = listId) (db_cards d));
                 crd = \<lparr> card_id = newId, card_title = title, card_description = description,
                         card_list = listId, card_position = int cardCount, card_dueDate = due,
                         card_priority = ''Low'', card_status = ''Todo'',
                         card_createdBy = reqUser \<rparr>
             in if title = [] \<or> findById card_id (db_cards d) newId \<noteq> None
                then (Inl serverError, d)
                else (Inr crd,
                      d\<lparr>db_cards := db_cards d @ [crd],
                        db_lists := saveDoc list_id (l\<lparr>list_cards := list_cards l @ [newId]\<rparr>)
                                      (db_lists d)\<rparr>))
      | _ \<Rightarrow> (Inl (Failure 404 ''Board or list not found''), d))"

text \<open>
  PATCH /cards/:id/move (lines 219 to 261). \<open>Board.findById(newList.board)\<close> is
  evaluated before the test of \<open>newList\<close>: when \<open>newList\<close> is \<open>null\<close> it throws.
  \<open>position\<close> is the number of the request body, \<open>None\<close> when it has none.
  \<open>card.save()\<close> validates the card after both list updates are written: a stored
  card whose title is empty (the title is required) makes it throw, and the lists stay
  changed.
\<close>

definition moveCard ::
  "db \<Rightarrow> objectId \<Rightarrow> objectId \<Rightarrow> objectId \<Rightarrow> int option \<Rightarrow> (failure + card) \<times> db" where
  "moveCard d reqUser cid newListId position =
     (case findById card_id (db_cards d) cid of
        None \<Rightarrow> (Inl (Failure 404 ''Card not found''), d)
      | Some crd \<Rightarrow>
          (case findById list_id (db_lists d) newListId of
             None \<Rightarrow> (Inl serverError, d)
           | Some newList \<Rightarrow>
               (case (findById list_id (db_lists d) (card_list crd),
                      findById board_id (db_boards d) (list_board newList)) of
                  (Some oldList, Some b) \<Rightarrow>
                    if accessDenied b reqUser then (Inl (Failure 403 ''Access denied''), d)
                    else
                      (let lists1 = findByIdAndUpdate list_id (list_id oldList)
                                      (\<lambda>l. l\<lparr>list_cards := removeAll (card_id crd) (list_cards l)\<rparr>)
                                      (db_lists d);
                           lists2 = findByIdAndUpdate list_id newListId
                                      (\<lambda>l. l\<lparr>list_cards := list_cards l @ [card_id crd]\<rparr>) lists1;
                           crd' = crd\<lparr>card_list := newListId,
                                      card_position := (case position of
                                                          None \<Rightarrow> 0
                                                        | Some p \<Rightarrow> if p = 0 then 0 else p)\<rparr>
                       in if card_title crd = [] then (Inl serverError, d\<lparr>db_lists := lists2\<rparr>)
                          else (Inr crd',
                                d\<lparr>db_lists := lists2,
                                  db_cards := saveDoc card_id crd' (db_cards d)\<rparr>))
                | _ \<Rightarrow> (Inl (Failure 404 ''List or board not found''), d))))"

text \<open>
  PATCH /cards/:id (lines 486 to 519), with the fields of the request body that the
  Card schema knows. \<open>list.board\<close> and \<open>board.owner\<close> are read without a test, so a
  card whose list or board is gone ends in the \<open>catch\<close>.
\<close>

record card_updates =
  upd_title :: "string option"
  upd_description :: "string option"
  upd_dueDate :: "int option"
  upd_priority :: "string option"
  upd_status :: "string option"
  upd_position :: "int option"

definition applyUpdates :: "card_updates \<Rightarrow> card \<Rightarrow> card" where
  "applyUpdates u crd =
     crd\<lparr> card_title := (case upd_title u of None \<Rightarrow> card_title crd | Some t \<Rightarrow> t),
          card_description := (case upd_description u of None \<Rightarrow> card_description crd | Some t \<Rightarrow> t),
          card_dueDate := (case upd_dueDate u of None \<Rightarrow> card_dueDate crd | Some t \<Rightarrow> Some t),
          card_priority := (case upd_priority u of None \<Rightarrow> card_priority crd | Some t \<Rightarrow> t),
          card_status := (case upd_status u of None \<Rightarrow> card_status crd | Some t \<Rightarrow> t),
          card_position := (case upd_position u of None \<Rightarrow> card_position crd | Some t \<Rightarrow> t) \<rparr>"

definition patchCard :: "db \<Rightarrow> objectId \<Rightarrow> objectId \<Rightarrow> card_updates \<Rightarrow> (failure + card) \<times> db" where
  "patchCard d reqUser cid updates =
     (case findById card_id (db_cards d) cid of
        None \<Rightarrow> (Inl (Failure 404 ''Card not found''), d)
      | Some crd \<Rightarrow>
          (case findById list_id (db_lists d) (card_list crd) of
             None \<Rightarrow> (Inl serverError, d)
           | Some l \<Rightarrow>
               (case findById board_id (db_boards d) (list_board l) of
                  None \<Rightarrow> (Inl serverError, d)
                | Some b \<Rightarrow>
                    if accessDenied b reqUser then (Inl (Failure 403 ''Access denied''), d)
                    else (Inr (applyUpdates updates crd),
                          d\<lparr>db_cards := findByIdAndUpdate card_id cid (applyUpdates updates)
                                           (db_cards d)\<rparr>))))"

text \<open>
  What every advisory pushed for a card carries: the identifier and title of that
  card, and a severity that \<open>severityOrder\<close> knows.
\<close>

definition wellFormedFor :: "card \<Rightarrow> advisory \<Rightarrow> bool" where
  "wellFormedFor crd a =
     (cardId a = card_id crd \<and> cardTitle a = card_title crd \<and> severityOrder (severity a) \<noteq> None)"

section \<open>Boards and collections used to evaluate the handlers\<close>

definition sampleCard :: "objectId \<Rightarrow> string \<Rightarrow> string \<Rightarrow> int option \<Rightarrow> card" where
  "sampleCard i prio stat due =
     \<lparr> card_id = i, card_title = ''Task '' @ i, card_description = [], card_list = ''l1'',
        card_position = 0, card_dueDate = due, card_priority = prio, card_status = stat,
        card_createdBy = ''u1'' \<rparr>"

text \<open>
  A board with the lists Backlog, In Progress and Completed. Backlog holds a Critical
  card in Todo without a due date and a finished Low card; evaluation time is one day
  after the epoch.
\<close>

definition sampleBoard :: pboard where
  "sampleBoard =
     \<lparr> pb_id = ''b1'', pb_owner = ''u1'', pb_members = [''u1''],
        pb_lists =
          [\<lparr> pl_id = ''l1'', pl_name = ''Backlog'',
              pl_cards = [sampleCard ''c1'' ''Critical'' ''Todo'' None,
                          sampleCard ''c2'' ''Low'' ''Done'' (Some 0)] \<rparr>,
           \<lparr> pl_id = ''l2'', pl_name = ''In Progress'', pl_cards = [] \<rparr>,
           \<lparr> pl_id = ''l3'', pl_name = ''Completed'', pl_cards = [] \<rparr>] \<rparr>"

definition sampleNow :: int where
  "sampleNow = 86400000"

text \<open>A board whose only list is Backlog, holding one Critical card.\<close>

definition backlogOnlyBoard :: pboard where
  "backlogOnlyBoard =
     \<lparr> pb_id = ''b2'', pb_owner = ''u1'', pb_members = [''u1''],
        pb_lists = [\<lparr> pl_id = ''l1'', pl_name = ''Backlog'',
                      pl_cards = [sampleCard ''c1'' ''Critical'' ''Todo'' None] \<rparr>] \<rparr>"

text \<open>A finished card that no list of \<open>sampleBoard\<close> holds.\<close>

definition orphanCard :: card where
  "orphanCard = sampleCard ''c9'' ''Low'' ''Done'' None"

text \<open>
  A board with one list, Todo, holding a Medium card in Todo that was due at the
  epoch, one day before \<open>sampleNow\<close>, and a High card in Backlog without a due date.
\<close>

definition overdueCard :: card where
  "overdueCard = sampleCard ''c3'' ''Medium'' ''Todo'' (Some 0)"

text \<open>
  A board whose two lists both reference \<open>overdueCard\<close>, and a card in Todo that was
  due one hour before \<open>sampleNow\<close>, at 23:00 of the day before.
\<close>

definition dupBoard :: pboard where
  "dupBoard =
     \<lparr> pb_id = ''b5'', pb_owner = ''u1'', pb_members = [''u1''],
        pb_lists = [\<lparr> pl_id = ''l1'', pl_name = ''Todo'', pl_cards = [overdueCard] \<rparr>,
                    \<lparr> pl_id = ''l2'', pl_name = ''Doing'', pl_cards = [overdueCard] \<rparr>] \<rparr>"

definition lateYesterdayCard :: card where
  "lateYesterdayCard = sampleCard ''c5'' ''Medium'' ''Todo'' (Some 82800000)"

definition overdueBoard :: pboard where
  "overdueBoard =
     \<lparr> pb_id = ''b3'', pb_owner = ''u1'', pb_members = [''u1''],
        pb_lists = [\<lparr> pl_id = ''l1'', pl_name = ''Todo'',
                      pl_cards = [overdueCard, sampleCard ''c4'' ''High'' ''Backlog'' None] \<rparr>] \<rparr>"

text \<open>
  A database with three users and two boards of Ann's. Board b1 has Ann and Bob as
  members and the lists Todo (holding card c1) and Done; board b4 has no member at
  all, so its owner is outside the member list. Carol is on no board. List l8 names a
  board that does not exist, and card c7 names a list that does not exist.
\<close>

definition sampleDb :: db where
  "sampleDb =
     \<lparr> db_users =
         [\<lparr> user_id = ''u1'', user_name = ''Ann'', user_email = ''ann@example.com'' \<rparr>,
          \<lparr> user_id = ''u2'', user_name = ''Bob'', user_email = ''bob@example.com'' \<rparr>,
          \<lparr> user_id = ''u3'', user_name = ''Carol'', user_email = ''carol@example.com'' \<rparr>],
       db_boards =
         [\<lparr> board_id = ''b1'', board_name = ''Work'', board_description = [],
             board_owner = ''u1'', board_members = [''u1'', ''u2''],
             board_lists = [''l1'', ''l2''] \<rparr>,
          \<lparr> board_id = ''b4'', board_name = ''Private'', board_description = [],
             board_owner = ''u1'', board_members = [], board_lists = [] \<rparr>],
       db_lists =
         [\<lparr> list_id = ''l1'', list_name = ''Todo'', list_board = ''b1'', list_position = 0,
             list_cards = [''c1''] \<rparr>,
          \<lparr> list_id = ''l2'', list_name = ''Done'', list_board = ''b1'', list_position = 1,
             list_cards = [] \<rparr>,
          \<lparr> list_id = ''l8'', list_name = ''Stray'', list_board = ''b8'', list_position = 0,
             list_cards = [] \<rparr>],
       db_cards = [sampleCard ''c1'' ''High'' ''Todo'' None,
                   (sampleCard ''c7'' ''Low'' ''Todo'' None)\<lparr>card_list := ''l7''\<rparr>] \<rparr>"

definition markDone :: card_updates where
  "markDone = \<lparr> upd_title = None, upd_description = None, upd_dueDate = None,
                upd_priority = None, upd_status = Some ''Done'', upd_position = None \<rparr>"

section \<open>Properties of the recommendation rules\<close>

subsection \<open>The sort\<close>

lemma insertBy_insort_key:
  "(\<And>y. y \<in> set ys \<Longrightarrow> (cmp x y \<le> 0) = (f x \<le> f y)) \<Longrightarrow> insertBy cmp x ys = insort_key f x ys"
  by (induction ys) auto

lemma js_sort_sort_key:
  "(\<And>x y. x \<in> set xs \<Longrightarrow> y \<in> set xs \<Longrightarrow> (cmp x y \<le> 0) = ((f x :: int) \<le> f y))
     \<Longrightarrow> js_sort cmp xs = sort_key f xs"
proof (induction xs)
  case Nil
  show ?case by simp
next
  case (Cons x xs)
  have ih: "js_sort cmp xs = sort_key f xs"
    using Cons.prems by (intro Cons.IH) auto
  have "insertBy cmp x (sort_key f xs) = insort_key f x (sort_key f xs)"
    using Cons.prems by (intro insertBy_insort_key) auto
  with ih show ?case by simp
qed

lemma sort_key_constant:
  "(\<And>x. x \<in> set xs \<Longrightarrow> f x = (k :: int)) \<Longrightarrow> sort_key f xs = xs"
proof (induction xs)
  case Nil
  show ?case by simp
next
  case (Cons x xs)
  then have "sort_key f xs = xs" by simp
  moreover have "insort_key f x xs = x # xs"
    using Cons.prems by (cases xs) auto
  ultimately show ?case by simp
qed

lemma filter_sort_key_class:
  assumes "\<And>x. x \<in> set xs \<Longrightarrow> P x \<Longrightarrow> f x = (k :: int)"
  shows "filter P (sort_key f xs) = filter P xs"
proof -
  have "filter P (sort_key f xs) = sort_key f (filter P xs)"
    by (rule filter_sort)
  also have "\<dots> = filter P xs"
    using assms by (intro sort_key_constant [where k = k]) auto
  finally show ?thesis .
qed

subsection \<open>What each rule pushes\<close>

lemma wf_criticalPriorityRule: "list_all (wellFormedFor c) (criticalPriorityRule b c)"
  by (simp add: criticalPriorityRule_def wellFormedFor_def severityOrder_def split: option.split)

lemma wf_highPriorityRule: "list_all (wellFormedFor c) (highPriorityRule b c)"
  by (simp add: highPriorityRule_def wellFormedFor_def severityOrder_def split: option.split)

lemma wf_dueDateRule: "list_all (wellFormedFor c) (dueDateRule now c)"
  by (simp add: dueDateRule_def wellFormedFor_def severityOrder_def Let_def split: option.split)

lemma wf_inProgressRule: "list_all (wellFormedFor c) (inProgressRule now c)"
  by (simp add: inProgressRule_def wellFormedFor_def severityOrder_def Let_def split: option.split)

lemma wf_blockedRule: "list_all (wellFormedFor c) (blockedRule c)"
  by (simp add: blockedRule_def wellFormedFor_def severityOrder_def)

lemma wf_criticalTodoRule: "list_all (wellFormedFor c) (criticalTodoRule c)"
  by (simp add: criticalTodoRule_def wellFormedFor_def severityOrder_def)

lemma wf_alertsOf: "list_all (wellFormedFor c) (alertsOf b c)"
  by (simp add: alertsOf_def moveToDoneRule_def wellFormedFor_def severityOrder_def
      split: option.split)

lemma wf_priorityOf: "list_all (wellFormedFor c) (priorityOf b c)"
  by (simp add: priorityOf_def wf_criticalPriorityRule wf_highPriorityRule)

lemma wf_statusOf: "list_all (wellFormedFor c) (statusOf now c)"
  by (simp add: statusOf_def wf_inProgressRule wf_blockedRule wf_criticalTodoRule)

lemma wf_concat_map:
  assumes "\<And>c. list_all (wellFormedFor c) (g c)" and "a \<in> set (concat (map g cs))"
  shows "\<exists>c\<in>set cs. wellFormedFor c a"
proof -
  from assms(2) obtain c where c: "c \<in> set cs" "a \<in> set (g c)" by auto
  with assms(1) [of c] have "wellFormedFor c a" by (simp add: list_all_iff)
  with c show ?thesis by blast
qed

lemma wf_concatenation:
  assumes "a \<in> set (concatenation b now)"
  shows "\<exists>c\<in>set (allCards b). wellFormedFor c a"
proof -
  from assms consider
      "a \<in> set (concat (map (alertsOf b) (allCards b)))"
    | "a \<in> set (concat (map (priorityOf b) (allCards b)))"
    | "a \<in> set (concat (map (dueDateRule now) (allCards b)))"
    | "a \<in> set (concat (map (statusOf now) (allCards b)))"
    unfolding concatenation_def set_append by blast
  then show ?thesis
  proof cases
    case 1
    then show ?thesis by (rule wf_concat_map [rotated]) (rule wf_alertsOf)
  next
    case 2
    then show ?thesis by (rule wf_concat_map [rotated]) (rule wf_priorityOf)
  next
    case 3
    then show ?thesis by (rule wf_concat_map [rotated]) (rule wf_dueDateRule)
  next
    case 4
    then show ?thesis by (rule wf_concat_map [rotated]) (rule wf_statusOf)
  qed
qed

subsection \<open>The loop over the cards\<close>

lemma currentList_allCards:
  assumes "c \<in> set (allCards b)"
  shows "\<exists>l. currentList b c = Some l"
proof -
  from assms obtain l where l: "l \<in> set (pb_lists b)" "c \<in> set (pl_cards l)"
    by (auto simp: allCards_def)
  then have "hasCard c l" by (auto simp: hasCard_def list_ex_iff)
  with l have "find (hasCard c) (pb_lists b) \<noteq> None" by (auto simp: find_None_iff)
  then show ?thesis by (auto simp: currentList_def)
qed

lemma moveToDoneRule_found:
  "currentList b c = Some l \<Longrightarrow> moveToDoneRule b c = Inr (alertsOf b c)"
  by (simp add: moveToDoneRule_def alertsOf_def split: option.split)

lemma moveToDoneRule_allCards:
  "c \<in> set (allCards b) \<Longrightarrow> moveToDoneRule b c = Inr (alertsOf b c)"
  using currentList_allCards [of c b] moveToDoneRule_found by blast

lemma cardRules_Inr:
  "moveToDoneRule b c = Inr (alertsOf b c) \<Longrightarrow>
   cardRules b now c r =
     Inr \<lparr> alerts = alerts r @ alertsOf b c, priority = priority r @ priorityOf b c,
           dueDate = dueDate r @ dueDateRule now c, status = status r @ statusOf now c \<rparr>"
  by (simp add: cardRules_def priorityOf_def statusOf_def Let_def)

lemma forEach_cardRules:
  "(\<And>c. c \<in> set cs \<Longrightarrow> moveToDoneRule b c = Inr (alertsOf b c)) \<Longrightarrow>
   forEach (cardRules b now) cs r =
     Inr \<lparr> alerts = alerts r @ concat (map (alertsOf b) cs),
           priority = priority r @ concat (map (priorityOf b) cs),
           dueDate = dueDate r @ concat (map (dueDateRule now) cs),
           status = status r @ concat (map (statusOf now) cs) \<rparr>"
proof (induction cs arbitrary: r)
  case Nil
  show ?case by simp
next
  case (Cons c cs)
  have "moveToDoneRule b c = Inr (alertsOf b c)" using Cons.prems by simp
  then show ?case
    using Cons.IH Cons.prems by (simp add: cardRules_Inr)
qed

lemma recommendationEngine_eq:
  "recommendationEngine b now = Inr (js_sort compareSeverity (concatenation b now))"
  by (simp add: recommendationEngine_def forEach_cardRules moveToDoneRule_allCards
      emptyRecommendations_def concatenation_def)

text \<open>
  The handler answers with the engine's result on the populated board, whenever the
  board exists and the requester passes the access test.
\<close>

lemma getRecommendations_engine:
  "getRecommendations d reqUser boardId now = Inr out \<longleftrightarrow>
     (\<exists>b. findById board_id (db_boards d) boardId = Some b \<and> \<not> accessDenied b reqUser
          \<and> recommendationEngine (populateBoard d b) now = Inr out)"
  by (auto simp: getRecommendations_def recommendationEngine_eq split: option.splits)

lemma compareSeverity_rank:
  assumes "severityOrder (severity x) \<noteq> None" and "severityOrder (severity y) \<noteq> None"
  shows "(compareSeverity x y \<le> 0) = (- severityRank x \<le> - severityRank y)"
  using assms by (auto simp: compareSeverity_def severityRank_def)

lemma recommendationEngine_sort_key:
  "recommendationEngine b now = Inr (sort_key (\<lambda>a. - severityRank a) (concatenation b now))"
proof -
  have "js_sort compareSeverity (concatenation b now)
          = sort_key (\<lambda>a. - severityRank a) (concatenation b now)"
  proof (rule js_sort_sort_key)
    fix x y
    assume "x \<in> set (concatenation b now)" and "y \<in> set (concatenation b now)"
    then have "severityOrder (severity x) \<noteq> None" and "severityOrder (severity y) \<noteq> None"
      using wf_concatenation by (auto simp: wellFormedFor_def)
    then show "(compareSeverity x y \<le> 0) = (- severityRank x \<le> - severityRank y)"
      by (rule compareSeverity_rank)
  qed
  then show ?thesis by (simp add: recommendationEngine_eq)
qed

text \<open>
  C1. For every populated board and evaluation time the handler's advisory sequence is
  the concatenation of the rule groups alerts, priority, dueDate, status (the four
  arrays that the loop over the cards fills, each in card iteration order), rearranged
  by a stable sort on descending severity: it is a permutation of the concatenation,
  no advisory stands behind one of lower severity, and the advisories of one severity
  keep the order they have in the concatenation.
\<close>

theorem getRecommendations_sorted_by_severity:
  "\<exists>out. recommendationEngine b now = Inr out
     \<and> (\<exists>r. forEach (cardRules b now) (allCards b) emptyRecommendations = Inr r
            \<and> alerts r @ priority r @ dueDate r @ status r = concatenation b now)
     \<and> mset out = mset (concatenation b now)
     \<and> sorted_wrt (\<lambda>x y. severityRank y \<le> severityRank x) out
     \<and> (\<forall>i j. i < length out \<and> j < length out \<and> severityRank (out ! j) < severityRank (out ! i)
            \<longrightarrow> i < j)
     \<and> (\<forall>s. filter (\<lambda>a. severity a = s) out
             = filter (\<lambda>a. severity a = s) (concatenation b now))"
proof -
  define out where "out = sort_key (\<lambda>a. - severityRank a) (concatenation b now)"
  have run: "recommendationEngine b now = Inr out"
    by (simp add: out_def recommendationEngine_sort_key)
  have groups: "\<exists>r. forEach (cardRules b now) (allCards b) emptyRecommendations = Inr r
                  \<and> alerts r @ priority r @ dueDate r @ status r = concatenation b now"
    by (simp add: forEach_cardRules moveToDoneRule_allCards emptyRecommendations_def
        concatenation_def)
  have perm: "mset out = mset (concatenation b now)"
    by (simp add: out_def)
  have "sorted (map (\<lambda>a. - severityRank a) out)"
    by (simp add: out_def)
  then have desc: "sorted_wrt (\<lambda>x y. severityRank y \<le> severityRank x) out"
    by (simp add: sorted_map)
  have idx: "i < j" if "i < length out" "j < length out"
      "severityRank (out ! j) < severityRank (out ! i)" for i j
  proof (rule ccontr)
    assume "\<not> i < j"
    with that(3) have "j < i" by (cases "i = j") auto
    with desc that(1) have "severityRank (out ! i) \<le> severityRank (out ! j)"
      by (simp add: sorted_wrt_iff_nth_less)
    with that(3) show False by simp
  qed
  have stable: "filter (\<lambda>a. severity a = s) out
                  = filter (\<lambda>a. severity a = s) (concatenation b now)" for s
    unfolding out_def
    by (rule filter_sort_key_class
        [where k = "- (case severityOrder s of Some n \<Rightarrow> n | None \<Rightarrow> 0)"])
       (simp add: severityRank_def)
  from run groups perm desc idx stable show ?thesis by blast
qed

theorem getRecommendations_sorted_by_severity_witness:
  "\<exists>out. recommendationEngine sampleBoard sampleNow = Inr out
     \<and> map type (concatenation sampleBoard sampleNow)
         = [''move_to_done'', ''critical_priority'', ''no_due_date_high_priority'',
            ''critical_in_todo'']
     \<and> map type out
         = [''critical_priority'', ''critical_in_todo'', ''no_due_date_high_priority'',
            ''move_to_done'']
     \<and> map severity out = [''high'', ''high'', ''medium'', ''low'']
     \<and> filter (\<lambda>a. severity a = ''high'') out
         = filter (\<lambda>a. severity a = ''high'') (concatenation sampleBoard sampleNow)"
proof -
  from getRecommendations_sorted_by_severity [of sampleBoard sampleNow]
  obtain out where run: "recommendationEngine sampleBoard sampleNow = Inr out"
    and stable: "\<forall>s. filter (\<lambda>a. severity a = s) out
                   = filter (\<lambda>a. severity a = s) (concatenation sampleBoard sampleNow)"
    by blast
  have cat: "map type (concatenation sampleBoard sampleNow)
               = [''move_to_done'', ''critical_priority'', ''no_due_date_high_priority'',
                  ''critical_in_todo'']"
    by code_simp
  have "map type (projr (recommendationEngine sampleBoard sampleNow))
          = [''critical_priority'', ''critical_in_todo'', ''no_due_date_high_priority'',
             ''move_to_done'']"
    by code_simp
  with run have types: "map type out
          = [''critical_priority'', ''critical_in_todo'', ''no_due_date_high_priority'',
             ''move_to_done'']"
    by simp
  have "map severity (projr (recommendationEngine sampleBoard sampleNow))
          = [''high'', ''high'', ''medium'', ''low'']"
    by code_simp
  with run have sevs: "map severity out = [''high'', ''high'', ''medium'', ''low'']"
    by simp
  from stable have "filter (\<lambda>a. severity a = ''high'') out
         = filter (\<lambda>a. severity a = ''high'') (concatenation sampleBoard sampleNow)"
    by (rule spec)
  with run cat types sevs show ?thesis
    by (intro exI [of _ out] conjI)
qed

subsection \<open>Well-formed advisories\<close>

lemma severityOrder_known:
  "severityOrder s \<noteq> None \<Longrightarrow> s \<in> {''high'', ''medium'', ''low''}"
  by (simp add: severityOrder_def split: if_splits)

lemma set_recommendationEngine:
  assumes "recommendationEngine b now = Inr out"
  shows "set out = set (concatenation b now)"
proof -
  from recommendationEngine_sort_key [of b now] assms have "mset out = mset (concatenation b now)"
    by simp
  then show ?thesis by (rule mset_eq_setD)
qed

text \<open>
  C10. Every advisory that the handler returns names a card held by one of the lists
  of the board it was given, and its severity is high, medium or low.
\<close>

theorem advisories_well_formed:
  assumes "recommendationEngine b now = Inr out" and "a \<in> set out"
  shows "(\<exists>l\<in>set (pb_lists b). \<exists>c\<in>set (pl_cards l). cardId a = card_id c)
           \<and> severity a \<in> {''high'', ''medium'', ''low''}"
proof -
  from assms have "a \<in> set (concatenation b now)"
    by (simp add: set_recommendationEngine)
  then obtain c where c: "c \<in> set (allCards b)" and wf: "wellFormedFor c a"
    using wf_concatenation by blast
  from c obtain l where "l \<in> set (pb_lists b)" "c \<in> set (pl_cards l)"
    by (auto simp: allCards_def)
  moreover from wf have "cardId a = card_id c" and "severityOrder (severity a) \<noteq> None"
    by (simp_all add: wellFormedFor_def)
  ultimately show ?thesis
    using severityOrder_known by blast
qed

theorem advisories_well_formed_witness:
  "recommendationEngine sampleBoard sampleNow
     = Inr (projr (recommendationEngine sampleBoard sampleNow))
   \<and> hd (projr (recommendationEngine sampleBoard sampleNow))
       \<in> set (projr (recommendationEngine sampleBoard sampleNow))
   \<and> (\<exists>l\<in>set (pb_lists sampleBoard). \<exists>c\<in>set (pl_cards l).
         cardId (hd (projr (recommendationEngine sampleBoard sampleNow))) = card_id c)
   \<and> severity (hd (projr (recommendationEngine sampleBoard sampleNow)))
       \<in> {''high'', ''medium'', ''low''}"
proof -
  have run: "recommendationEngine sampleBoard sampleNow
               = Inr (projr (recommendationEngine sampleBoard sampleNow))"
    by code_simp
  have mem: "hd (projr (recommendationEngine sampleBoard sampleNow))
               \<in> set (projr (recommendationEngine sampleBoard sampleNow))"
    by code_simp
  from advisories_well_formed [OF run mem] run mem show ?thesis
    by blast
qed

subsection \<open>The containing list\<close>

text \<open>
  C4. The evaluation does not fail. Every card that the handler evaluates is taken
  from a list of the board, so the lookup of the containing list succeeds for each of
  them (no evaluated card is referenced by no list), the Done-list check never raises,
  the evaluation returns its advisories, and the handler never answers with the
  server error.
\<close>

theorem evaluation_never_fails:
  "list_all (\<lambda>c. currentList b c \<noteq> None) (allCards b)
   \<and> (\<exists>out. recommendationEngine b now = Inr out)
   \<and> getRecommendations d reqUser boardId now \<noteq> Inl serverError"
proof -
  have "list_all (\<lambda>c. currentList b c \<noteq> None) (allCards b)"
    using currentList_allCards [of _ b] by (fastforce simp: list_all_iff)
  moreover have "\<exists>out. recommendationEngine b now = Inr out"
    by (simp add: recommendationEngine_eq)
  moreover have "getRecommendations d reqUser boardId now \<noteq> Inl serverError"
    by (simp add: getRecommendations_def recommendationEngine_eq serverError_def
        split: option.split)
  ultimately show ?thesis by blast
qed

text \<open>
  The rule body alone, on a card that no list of the board holds. The handler never
  applies it to such a card; the test of \<open>currentList.name\<close> itself is unguarded.
\<close>

lemma cardRules_unreferenced_done_card:
  "currentList sampleBoard orphanCard = None
   \<and> card_status orphanCard = ''Done''
   \<and> moveToDoneRule sampleBoard orphanCard = Inl TypeError
   \<and> cardRules sampleBoard sampleNow orphanCard emptyRecommendations = Inl TypeError"
  by code_simp

subsection \<open>The Critical rule\<close>

lemma find_SomeD: "find P xs = Some x \<Longrightarrow> P x \<and> x \<in> set xs"
  by (induction xs) (auto split: if_splits)

lemma find_exists: "x \<in> set xs \<Longrightarrow> P x \<Longrightarrow> \<exists>y. find P xs = Some y"
  by (cases "find P xs") (auto simp: find_None_iff)

lemma not_critical_priority_types:
  "list_all (\<lambda>a. type a \<noteq> ''critical_priority'') (alertsOf b c)"
  "list_all (\<lambda>a. type a \<noteq> ''critical_priority'') (highPriorityRule b c)"
  "list_all (\<lambda>a. type a \<noteq> ''critical_priority'') (dueDateRule now c)"
  "list_all (\<lambda>a. type a \<noteq> ''critical_priority'') (statusOf now c)"
  by (simp_all add: alertsOf_def moveToDoneRule_def highPriorityRule_def dueDateRule_def
      statusOf_def inProgressRule_def blockedRule_def criticalTodoRule_def Let_def
      split: option.split)

lemma criticalPriorityRule_no_list:
  "\<not> (\<exists>l\<in>set (pb_lists b). inProgressName l) \<Longrightarrow> criticalPriorityRule b c = []"
proof -
  assume "\<not> (\<exists>l\<in>set (pb_lists b). inProgressName l)"
  then have "find inProgressName (pb_lists b) = None"
    by (simp add: find_None_iff)
  then show ?thesis
    unfolding criticalPriorityRule_def inProgressName_def [abs_def] by simp
qed

lemma concat_map_all:
  "(\<And>c. list_all P (g c)) \<Longrightarrow> list_all P (concat (map g cs))"
  by (induction cs) (auto simp: list_all_iff)

lemma no_critical_priority_without_list:
  assumes "\<not> (\<exists>l\<in>set (pb_lists b). inProgressName l)"
  shows "list_all (\<lambda>a. type a \<noteq> ''critical_priority'') (concatenation b now)"
proof -
  let ?P = "\<lambda>a. type a \<noteq> ''critical_priority''"
  have "list_all ?P (priorityOf b c)" for c
    unfolding priorityOf_def criticalPriorityRule_no_list [OF assms]
    using not_critical_priority_types(2) [of b c] by simp
  then have 2: "list_all ?P (concat (map (priorityOf b) (allCards b)))"
    by (rule concat_map_all)
  have 1: "list_all ?P (concat (map (alertsOf b) (allCards b)))"
    by (rule concat_map_all) (rule not_critical_priority_types)
  have 3: "list_all ?P (concat (map (dueDateRule now) (allCards b)))"
    by (rule concat_map_all) (rule not_critical_priority_types)
  have 4: "list_all ?P (concat (map (statusOf now) (allCards b)))"
    by (rule concat_map_all) (rule not_critical_priority_types)
  from 1 2 3 4 show ?thesis
    unfolding concatenation_def by simp
qed

text \<open>
  C3, as amended. A Critical card of the board gets a \<open>critical_priority\<close> advisory
  of severity high when the board has a list whose name contains "in progress"
  (case-insensitive) and no such list holds the card. On a board without such a list
  the rule pushes nothing, for any card, and the output holds no \<open>critical_priority\<close>
  advisory.
\<close>

theorem critical_priority_emitted:
  "(c \<in> set (allCards b) \<and> card_priority c = ''Critical''
      \<and> (\<exists>l\<in>set (pb_lists b). inProgressName l)
      \<and> (\<forall>l\<in>set (pb_lists b). inProgressName l \<longrightarrow> \<not> hasCard c l)
      \<longrightarrow> (\<exists>out. recommendationEngine b now = Inr out
             \<and> (\<exists>a\<in>set out. cardId a = card_id c \<and> cardTitle a = card_title c
                   \<and> type a = ''critical_priority'' \<and> severity a = ''high'')))
   \<and> (\<not> (\<exists>l\<in>set (pb_lists b). inProgressName l)
      \<longrightarrow> criticalPriorityRule b c = []
           \<and> (\<exists>out. recommendationEngine b now = Inr out
                 \<and> \<not> (\<exists>a\<in>set out. type a = ''critical_priority'')))"
proof (intro conjI impI)
  assume asm: "c \<in> set (allCards b) \<and> card_priority c = ''Critical''
      \<and> (\<exists>l\<in>set (pb_lists b). inProgressName l)
      \<and> (\<forall>l\<in>set (pb_lists b). inProgressName l \<longrightarrow> \<not> hasCard c l)"
  then have mem: "c \<in> set (allCards b)" and crit: "card_priority c = ''Critical''"
    and ex: "\<exists>l\<in>set (pb_lists b). inProgressName l"
    and none: "\<forall>l\<in>set (pb_lists b). inProgressName l \<longrightarrow> \<not> hasCard c l"
    by simp_all
  from ex obtain l0 where "l0 \<in> set (pb_lists b)" and "inProgressName l0" ..
  then have "\<exists>l. find inProgressName (pb_lists b) = Some l"
    by (rule find_exists)
  then obtain l where found: "find inProgressName (pb_lists b) = Some l" ..
  from find_SomeD [OF found] have "inProgressName l" and "l \<in> set (pb_lists b)"
    by simp_all
  with none have "\<not> hasCard c l" by simp
  with found crit have "criticalPriorityRule b c =
      [\<lparr> cardId = card_id c, cardTitle = card_title c, type = ''critical_priority'',
         reason = ''Critical priority task should be in progress immediately'',
         severity = ''high'',
         action = ''Move to '' @ dquote @ ''In Progress'' @ dquote @ '' list'' \<rparr>]"
    (is "_ = [?a]")
    unfolding criticalPriorityRule_def inProgressName_def [abs_def] by simp
  then have "?a \<in> set (priorityOf b c)"
    by (simp add: priorityOf_def)
  with mem have "?a \<in> set (concatenation b now)"
    unfolding concatenation_def by auto
  then have "?a \<in> set (js_sort compareSeverity (concatenation b now))"
    using set_recommendationEngine [OF recommendationEngine_eq] by simp
  then show "\<exists>out. recommendationEngine b now = Inr out
             \<and> (\<exists>a\<in>set out. cardId a = card_id c \<and> cardTitle a = card_title c
                   \<and> type a = ''critical_priority'' \<and> severity a = ''high'')"
    unfolding recommendationEngine_eq by (intro exI conjI bexI [of _ ?a]) simp_all
next
  assume none: "\<not> (\<exists>l\<in>set (pb_lists b). inProgressName l)"
  then show "criticalPriorityRule b c = []"
    by (rule criticalPriorityRule_no_list)
  have eq: "set (js_sort compareSeverity (concatenation b now)) = set (concatenation b now)"
    by (rule set_recommendationEngine [OF recommendationEngine_eq])
  have "\<forall>a\<in>set (concatenation b now). type a \<noteq> ''critical_priority''"
    using no_critical_priority_without_list [OF none, of now] unfolding list_all_iff .
  then have "\<not> (\<exists>a\<in>set (js_sort compareSeverity (concatenation b now)).
                 type a = ''critical_priority'')"
    unfolding eq by (simp only: bex_simps not_not)
  then show "\<exists>out. recommendationEngine b now = Inr out
               \<and> \<not> (\<exists>a\<in>set out. type a = ''critical_priority'')"
    unfolding recommendationEngine_eq by (intro exI conjI) (rule refl)
qed

theorem critical_priority_emitted_witness:
  "sampleCard ''c1'' ''Critical'' ''Todo'' None \<in> set (allCards sampleBoard)
   \<and> (\<exists>out. recommendationEngine sampleBoard sampleNow = Inr out
         \<and> (\<exists>a\<in>set out. cardId a = ''c1'' \<and> cardTitle a = ''Task c1''
               \<and> type a = ''critical_priority'' \<and> severity a = ''high''))
   \<and> \<not> list_ex inProgressName (pb_lists backlogOnlyBoard)
   \<and> criticalPriorityRule backlogOnlyBoard (sampleCard ''c1'' ''Critical'' ''Todo'' None) = []
   \<and> (\<exists>out. recommendationEngine backlogOnlyBoard sampleNow = Inr out
         \<and> \<not> (\<exists>a\<in>set out. type a = ''critical_priority''))"
proof -
  let ?c = "sampleCard ''c1'' ''Critical'' ''Todo'' None"
  have 1: "?c \<in> set (allCards sampleBoard)" by code_simp
  have 2: "card_priority ?c = ''Critical''" by (simp add: sampleCard_def)
  have "list_ex inProgressName (pb_lists sampleBoard)" by code_simp
  then have 3: "\<exists>l\<in>set (pb_lists sampleBoard). inProgressName l"
    by (simp add: list_ex_iff)
  have "list_all (\<lambda>l. inProgressName l \<longrightarrow> \<not> hasCard ?c l) (pb_lists sampleBoard)"
    by code_simp
  then have 4: "\<forall>l\<in>set (pb_lists sampleBoard). inProgressName l \<longrightarrow> \<not> hasCard ?c l"
    by (simp add: list_all_iff)
  have ids: "card_id ?c = ''c1''" "card_title ?c = ''Task c1''"
    by (simp_all add: sampleCard_def)
  have 5: "\<not> list_ex inProgressName (pb_lists backlogOnlyBoard)" by code_simp
  then have 6: "\<not> (\<exists>l\<in>set (pb_lists backlogOnlyBoard). inProgressName l)"
    by (simp add: list_ex_iff)
  from critical_priority_emitted [of ?c sampleBoard sampleNow] 1 2 3 4
  have first: "\<exists>out. recommendationEngine sampleBoard sampleNow = Inr out
         \<and> (\<exists>a\<in>set out. cardId a = ''c1'' \<and> cardTitle a = ''Task c1''
               \<and> type a = ''critical_priority'' \<and> severity a = ''high'')"
    unfolding ids by blast
  from critical_priority_emitted [of ?c backlogOnlyBoard sampleNow] 6
  have second: "criticalPriorityRule backlogOnlyBoard ?c = []
         \<and> (\<exists>out. recommendationEngine backlogOnlyBoard sampleNow = Inr out
               \<and> \<not> (\<exists>a\<in>set out. type a = ''critical_priority''))"
    by blast
  from 1 first 5 second show ?thesis by blast
qed

theorem critical_priority_without_in_progress_list_counterexample:
  "sampleCard ''c1'' ''Critical'' ''Todo'' None \<in> set (allCards backlogOnlyBoard)
   \<and> card_priority (sampleCard ''c1'' ''Critical'' ''Todo'' None) = ''Critical''
   \<and> \<not> list_ex inProgressName (pb_lists backlogOnlyBoard)
   \<and> map_sum id (map (\<lambda>a. (cardId a, type a, severity a)))
         (recommendationEngine backlogOnlyBoard sampleNow)
       = Inr [(''c1'', ''critical_in_todo'', ''high''),
              (''c1'', ''no_due_date_high_priority'', ''medium'')]"
  by code_simp

subsection \<open>The due-date chain\<close>

lemma length_dueDateRule: "length (dueDateRule now c) \<le> 1"
  by (simp add: dueDateRule_def Let_def split: option.split)

lemma dueDateRule_types:
  "list_all (\<lambda>a. cardId a = card_id c \<and> type a \<in> set dueDateTypes) (dueDateRule now c)"
  by (simp add: dueDateRule_def dueDateTypes_def Let_def split: option.split)

lemma alertsOf_types: "list_all (\<lambda>a. type a \<notin> set dueDateTypes) (alertsOf b c)"
  by (simp add: alertsOf_def moveToDoneRule_def dueDateTypes_def split: option.split)

lemma priorityOf_types: "list_all (\<lambda>a. type a \<notin> set dueDateTypes) (priorityOf b c)"
  by (simp add: priorityOf_def criticalPriorityRule_def highPriorityRule_def dueDateTypes_def
      split: option.split)

lemma statusOf_types: "list_all (\<lambda>a. type a \<notin> set dueDateTypes) (statusOf now c)"
  by (simp add: statusOf_def inProgressRule_def blockedRule_def criticalTodoRule_def
      dueDateTypes_def Let_def split: option.split)

lemma filter_concat_map_none:
  "(\<And>c. list_all (\<lambda>a. \<not> P a) (g c)) \<Longrightarrow> filter P (concat (map g cs)) = []"
  by (induction cs) (auto simp: list_all_iff filter_empty_conv)

lemma dueDateAdvisoriesFor_concatenation:
  "dueDateAdvisoriesFor i (concatenation b now)
     = dueDateAdvisoriesFor i (concat (map (dueDateRule now) (allCards b)))"
proof -
  have "dueDateAdvisoriesFor i (concat (map (alertsOf b) (allCards b))) = []"
    unfolding dueDateAdvisoriesFor_def
    by (rule filter_concat_map_none) (use alertsOf_types in \<open>auto simp: list_all_iff\<close>)
  moreover have "dueDateAdvisoriesFor i (concat (map (priorityOf b) (allCards b))) = []"
    unfolding dueDateAdvisoriesFor_def
    by (rule filter_concat_map_none) (use priorityOf_types in \<open>auto simp: list_all_iff\<close>)
  moreover have "dueDateAdvisoriesFor i (concat (map (statusOf now) (allCards b))) = []"
    unfolding dueDateAdvisoriesFor_def
    by (rule filter_concat_map_none) (use statusOf_types in \<open>auto simp: list_all_iff\<close>)
  ultimately show ?thesis
    by (simp add: concatenation_def dueDateAdvisoriesFor_def)
qed

lemma dueDateAdvisoriesFor_other_card:
  "card_id c \<noteq> i \<Longrightarrow> dueDateAdvisoriesFor i (dueDateRule now c) = []"
  using dueDateRule_types [of c now]
  by (auto simp: dueDateAdvisoriesFor_def list_all_iff filter_empty_conv)

lemma dueDateAdvisoriesFor_same_card:
  "dueDateAdvisoriesFor (card_id c) (dueDateRule now c) = dueDateRule now c"
  using dueDateRule_types [of c now]
  by (auto simp: dueDateAdvisoriesFor_def list_all_iff filter_id_conv)

lemma dueDateAdvisoriesFor_append:
  "dueDateAdvisoriesFor i (xs @ ys) = dueDateAdvisoriesFor i xs @ dueDateAdvisoriesFor i ys"
  by (simp add: dueDateAdvisoriesFor_def)

lemma length_dueDateAdvisoriesFor_cards:
  "length (dueDateAdvisoriesFor i (concat (map (dueDateRule now) cs)))
     \<le> length (filter (\<lambda>x. card_id x = i) cs)"
proof (induction cs)
  case Nil
  show ?case by (simp add: dueDateAdvisoriesFor_def)
next
  case (Cons c cs)
  show ?case
  proof (cases "card_id c = i")
    case True
    then have "length (dueDateAdvisoriesFor i (dueDateRule now c)) \<le> 1"
      using dueDateAdvisoriesFor_same_card [of c now] length_dueDateRule [of now c] by simp
    with Cons True show ?thesis
      by (simp add: dueDateAdvisoriesFor_append)
  next
    case False
    with Cons show ?thesis
      by (simp add: dueDateAdvisoriesFor_append dueDateAdvisoriesFor_other_card)
  qed
qed

lemma dueDateAdvisoriesFor_absent:
  "i \<notin> card_id ` set cs \<Longrightarrow> dueDateAdvisoriesFor i (concat (map (dueDateRule now) cs)) = []"
proof (induction cs)
  case Nil
  show ?case by (simp add: dueDateAdvisoriesFor_def)
next
  case (Cons c cs)
  then have "card_id c \<noteq> i" and "i \<notin> card_id ` set cs" by auto
  with Cons.IH show ?case
    by (simp add: dueDateAdvisoriesFor_append dueDateAdvisoriesFor_other_card)
qed

lemma dueDateAdvisoriesFor_distinct:
  "distinct (map card_id cs) \<Longrightarrow> c \<in> set cs \<Longrightarrow>
   dueDateAdvisoriesFor (card_id c) (concat (map (dueDateRule now) cs)) = dueDateRule now c"
proof (induction cs)
  case Nil
  then show ?case by simp
next
  case (Cons x cs)
  show ?case
  proof (cases "x = c")
    case True
    with Cons.prems have "card_id c \<notin> card_id ` set cs" by simp
    then show ?thesis
      using True
      by (simp add: dueDateAdvisoriesFor_append dueDateAdvisoriesFor_same_card
          dueDateAdvisoriesFor_absent)
  next
    case False
    with Cons.prems have "c \<in> set cs" and "card_id x \<noteq> card_id c" by auto
    with Cons show ?thesis
      by (simp add: dueDateAdvisoriesFor_append dueDateAdvisoriesFor_other_card)
  qed
qed

lemma daysUntilDue_negative: "due + msPerDay \<le> now \<Longrightarrow> daysUntilDue due now < 0"
proof -
  assume "due + msPerDay \<le> now"
  then have "1 * msPerDay \<le> now - due" by simp
  then have "1 \<le> (now - due) div msPerDay"
    by (simp add: msPerDay_def)
  then show ?thesis by (simp add: daysUntilDue_def)
qed

lemma dueDateRule_overdue:
  assumes "card_dueDate c = Some due" and "due + msPerDay \<le> now"
    and "card_status c = ''Todo''" and "card_priority c \<noteq> ''Critical''"
  shows "dueDateRule now c =
           [\<lparr> cardId = card_id c, cardTitle = card_title c, type = ''overdue'',
              reason = ''Task was due '' @ showInt (abs (daysUntilDue due now))
                         @ '' day(s) ago but is not completed'',
              severity = ''medium'', action = ''Complete task immediately'' \<rparr>]"
  using assms daysUntilDue_negative [OF assms(2)]
  by (simp add: dueDateRule_def Let_def)

lemma length_filter_distinct:
  "distinct (map f xs) \<Longrightarrow> length (filter (\<lambda>x. f x = i) xs) \<le> 1"
  by (induction xs) (auto simp: filter_empty_conv image_iff)

lemma mset_eq_filter: "mset xs = mset ys \<Longrightarrow> mset (filter P xs) = mset (filter P ys)"
  by (simp only: mset_filter)

text \<open>
  C2, as amended. The due-date chain pushes at most one advisory each time a card is
  visited. In the output the advisories of the due-date group that name a card are at
  most as many as the references to the card in the lists of the board, hence at most
  one when the cards of the board have distinct identifiers. With distinct
  identifiers, a card in Todo that is not Critical and whose due date lies 24 hours or
  more before the evaluation time gets exactly one of them: \<open>overdue\<close>, severity
  medium.
\<close>

theorem due_date_rules_exclusive:
  "length (dueDateRule now c) \<le> 1
   \<and> (\<exists>out. recommendationEngine b now = Inr out
         \<and> (\<forall>i. length (dueDateAdvisoriesFor i out)
                  \<le> length (filter (\<lambda>x. card_id x = i) (allCards b)))
         \<and> (distinct (map card_id (allCards b))
              \<longrightarrow> (\<forall>i. length (dueDateAdvisoriesFor i out) \<le> 1))
         \<and> (c \<in> set (allCards b) \<and> distinct (map card_id (allCards b))
              \<and> card_dueDate c = Some due \<and> due + msPerDay \<le> now
              \<and> card_status c = ''Todo'' \<and> card_priority c \<noteq> ''Critical''
              \<longrightarrow> dueDateAdvisoriesFor (card_id c) out =
                    [\<lparr> cardId = card_id c, cardTitle = card_title c, type = ''overdue'',
                       reason = ''Task was due '' @ showInt (abs (daysUntilDue due now))
                                  @ '' day(s) ago but is not completed'',
                       severity = ''medium'', action = ''Complete task immediately'' \<rparr>]))"
proof -
  define out where "out = js_sort compareSeverity (concatenation b now)"
  have run: "recommendationEngine b now = Inr out"
    by (simp add: out_def recommendationEngine_eq)
  have "mset out = mset (concatenation b now)"
    using recommendationEngine_sort_key [of b now] run by simp
  then have "mset (dueDateAdvisoriesFor i out) = mset (dueDateAdvisoriesFor i (concatenation b now))"
    for i
    unfolding dueDateAdvisoriesFor_def by (rule mset_eq_filter)
  then have perm: "mset (dueDateAdvisoriesFor i out)
                     = mset (dueDateAdvisoriesFor i (concat (map (dueDateRule now) (allCards b))))"
    for i
    by (simp add: dueDateAdvisoriesFor_concatenation)
  have len: "length (dueDateAdvisoriesFor i out)
               = length (dueDateAdvisoriesFor i (concat (map (dueDateRule now) (allCards b))))"
    for i
    using perm [of i] by (rule mset_eq_length)
  have count: "length (dueDateAdvisoriesFor i out)
                 \<le> length (filter (\<lambda>x. card_id x = i) (allCards b))" for i
    using length_dueDateAdvisoriesFor_cards [of i now "allCards b"] by (simp add: len)
  have one: "length (dueDateAdvisoriesFor i out) \<le> 1"
    if "distinct (map card_id (allCards b))" for i
  proof -
    have "length (filter (\<lambda>x. card_id x = i) (allCards b)) \<le> 1"
      using that by (rule length_filter_distinct)
    with count [of i] show ?thesis by simp
  qed
  have example: "dueDateAdvisoriesFor (card_id c) out =
      [\<lparr> cardId = card_id c, cardTitle = card_title c, type = ''overdue'',
         reason = ''Task was due '' @ showInt (abs (daysUntilDue due now))
                    @ '' day(s) ago but is not completed'',
         severity = ''medium'', action = ''Complete task immediately'' \<rparr>]"
    if "c \<in> set (allCards b)" "distinct (map card_id (allCards b))"
      "card_dueDate c = Some due" "due + msPerDay \<le> now"
      "card_status c = ''Todo''" "card_priority c \<noteq> ''Critical''"
  proof -
    have "mset (dueDateAdvisoriesFor (card_id c) out) = mset (dueDateRule now c)"
      using perm [of "card_id c"] dueDateAdvisoriesFor_distinct [OF that(2,1), of now] by simp
    then have "mset (dueDateAdvisoriesFor (card_id c) out)
                 = {#\<lparr> cardId = card_id c, cardTitle = card_title c, type = ''overdue'',
                      reason = ''Task was due '' @ showInt (abs (daysUntilDue due now))
                                 @ '' day(s) ago but is not completed'',
                      severity = ''medium'', action = ''Complete task immediately'' \<rparr>#}"
      by (simp add: dueDateRule_overdue [OF that(3-6)])
    then show ?thesis by (simp only: mset_single_iff)
  qed
  from run count one example length_dueDateRule [of now c] show ?thesis by blast
qed

theorem due_date_rules_exclusive_witness:
  "overdueCard \<in> set (allCards overdueBoard)
   \<and> distinct (map card_id (allCards overdueBoard))
   \<and> card_dueDate overdueCard = Some 0 \<and> 0 + msPerDay \<le> sampleNow
   \<and> card_status overdueCard = ''Todo'' \<and> card_priority overdueCard \<noteq> ''Critical''
   \<and> (\<exists>out. recommendationEngine overdueBoard sampleNow = Inr out
         \<and> dueDateAdvisoriesFor ''c3'' out =
             [\<lparr> cardId = ''c3'', cardTitle = ''Task c3'', type = ''overdue'',
                reason = ''Task was due 1 day(s) ago but is not completed'',
                severity = ''medium'', action = ''Complete task immediately'' \<rparr>])"
proof -
  have 1: "overdueCard \<in> set (allCards overdueBoard)" by code_simp
  have 2: "distinct (map card_id (allCards overdueBoard))" by code_simp
  have 3: "card_dueDate overdueCard = Some 0" by code_simp
  have 4: "0 + msPerDay \<le> sampleNow" by code_simp
  have 5: "card_status overdueCard = ''Todo''" by code_simp
  have 6: "card_priority overdueCard \<noteq> ''Critical''" by code_simp
  have ev: "card_id overdueCard = ''c3''" "card_title overdueCard = ''Task c3''"
    "''Task was due '' @ showInt (abs (daysUntilDue 0 sampleNow))
       @ '' day(s) ago but is not completed''
     = ''Task was due 1 day(s) ago but is not completed''"
    by code_simp+
  from due_date_rules_exclusive
    [where now = sampleNow and c = overdueCard and b = overdueBoard and due = 0]
  obtain out where "recommendationEngine overdueBoard sampleNow = Inr out"
    and "overdueCard \<in> set (allCards overdueBoard) \<and> distinct (map card_id (allCards overdueBoard))
           \<and> card_dueDate overdueCard = Some 0 \<and> 0 + msPerDay \<le> sampleNow
           \<and> card_status overdueCard = ''Todo'' \<and> card_priority overdueCard \<noteq> ''Critical''
         \<longrightarrow> dueDateAdvisoriesFor (card_id overdueCard) out =
               [\<lparr> cardId = card_id overdueCard, cardTitle = card_title overdueCard,
                  type = ''overdue'',
                  reason = ''Task was due '' @ showInt (abs (daysUntilDue 0 sampleNow))
                             @ '' day(s) ago but is not completed'',
                  severity = ''medium'', action = ''Complete task immediately'' \<rparr>]"
    by blast
  with 1 2 3 4 5 6 show ?thesis
    unfolding ev by blast
qed

text \<open>
  Without these conditions: a card that two lists reference gets two \<open>overdue\<close>
  advisories, and a card due one hour before the evaluation time, on the day before,
  gets \<open>due_soon\<close>.
\<close>

theorem due_date_duplicate_reference_counterexample:
  "map card_id (allCards dupBoard) = [''c3'', ''c3'']
   \<and> map_sum id (map (\<lambda>a. (cardId a, type a, severity a)))
         (recommendationEngine dupBoard sampleNow)
       = Inr [(''c3'', ''overdue'', ''medium''), (''c3'', ''overdue'', ''medium'')]
   \<and> card_dueDate lateYesterdayCard = Some (sampleNow - 3600000)
   \<and> card_status lateYesterdayCard = ''Todo''
   \<and> daysUntilDue (sampleNow - 3600000) sampleNow = 0
   \<and> map type (dueDateRule sampleNow lateYesterdayCard) = [''due_soon'']"
  by code_simp

section \<open>Properties of the other handlers\<close>

subsection \<open>Lookups in a collection\<close>

lemma findById_id: "findById idOf coll i = Some x \<Longrightarrow> idOf x = i"
  unfolding findById_def by (drule find_SomeD) simp

lemma find_append_new:
  "find P xs = None \<Longrightarrow> find P (xs @ [x]) = (if P x then Some x else None)"
  by (induction xs) (auto split: if_splits)

lemma find_updateFirst_same:
  "(\<And>x. P x \<Longrightarrow> P (f x)) \<Longrightarrow> find P (updateFirst P f xs) = map_option f (find P xs)"
  by (induction xs) auto

lemma find_updateFirst_other:
  "(\<And>x. P x \<Longrightarrow> \<not> Q x \<and> \<not> Q (f x)) \<Longrightarrow> find Q (updateFirst P f xs) = find Q xs"
  by (induction xs) auto

lemma findById_update_same:
  "(\<And>x. idOf (f x) = idOf x) \<Longrightarrow>
   findById idOf (findByIdAndUpdate idOf i f coll) i = map_option f (findById idOf coll i)"
  unfolding findById_def findByIdAndUpdate_def by (rule find_updateFirst_same) simp

lemma findById_update_other:
  "(\<And>x. idOf (f x) = idOf x) \<Longrightarrow> i \<noteq> j \<Longrightarrow>
   findById idOf (findByIdAndUpdate idOf i f coll) j = findById idOf coll j"
  unfolding findById_def findByIdAndUpdate_def by (rule find_updateFirst_other) simp

lemma findById_saveDoc:
  "findById idOf coll (idOf x) = Some y \<Longrightarrow> findById idOf (saveDoc idOf x coll) (idOf x) = Some x"
  unfolding findById_def saveDoc_def by (simp add: find_updateFirst_same)

subsection \<open>Creation appends\<close>

lemma createList_Inr:
  assumes "createList d reqUser boardId name newId = (Inr l, d')"
  shows "l = \<lparr> list_id = newId, list_name = name, list_board = boardId,
               list_position = int (length (filter (\<lambda>x. list_board x = boardId) (db_lists d))),
               list_cards = [] \<rparr>
         \<and> findById list_id (db_lists d) newId = None
         \<and> db_lists d' = db_lists d @ [l]"
  using assms
  by (auto simp: createList_def Let_def split: option.splits if_splits)

lemma createCard_Inr:
  assumes "createCard d reqUser boardId listId title description due newId = (Inr crd, d')"
  shows "card_id crd = newId \<and> card_list crd = listId
         \<and> card_position crd = int (length (filter (\<lambda>x. card_list x = listId) (db_cards d)))
         \<and> findById card_id (db_cards d) newId = None
         \<and> db_cards d' = db_cards d @ [crd]"
  using assms
  by (auto simp: createCard_def Let_def split: option.splits if_splits)

text \<open>
  C6. A list that \<open>createList\<close> creates, and a card that \<open>createCard\<close> creates, is
  stored with the position that equals the number of documents with the same parent
  (lists of the board, cards of the list) in the collection just before the creation.
\<close>

theorem created_position_is_sibling_count:
  "(createList d reqUser boardId name newId = (Inr l, d1)
      \<longrightarrow> list_position l = int (length (filter (\<lambda>x. list_board x = boardId) (db_lists d)))
           \<and> findById list_id (db_lists d1) newId = Some l)
   \<and> (createCard d reqUser boardId listId title description due newId' = (Inr crd, d2)
      \<longrightarrow> card_position crd = int (length (filter (\<lambda>x. card_list x = listId) (db_cards d)))
           \<and> findById card_id (db_cards d2) newId' = Some crd)"
proof (intro conjI impI)
  assume run: "createList d reqUser boardId name newId = (Inr l, d1)"
  note facts = createList_Inr [OF run]
  from facts show "list_position l
      = int (length (filter (\<lambda>x. list_board x = boardId) (db_lists d)))"
    by simp
  from facts have "list_id l = newId" by simp
  with facts show "findById list_id (db_lists d1) newId = Some l"
    by (simp add: findById_def find_append_new)
next
  assume run: "createCard d reqUser boardId listId title description due newId' = (Inr crd, d2)"
  note facts = createCard_Inr [OF run]
  from facts show "card_position crd
      = int (length (filter (\<lambda>x. card_list x = listId) (db_cards d)))"
    by simp
  from facts show "findById card_id (db_cards d2) newId' = Some crd"
    by (simp add: findById_def find_append_new)
qed

theorem created_position_is_sibling_count_witness:
  "createList sampleDb ''u1'' ''b1'' ''Review'' ''l9''
     = (Inr (projr (fst (createList sampleDb ''u1'' ''b1'' ''Review'' ''l9''))),
        snd (createList sampleDb ''u1'' ''b1'' ''Review'' ''l9''))
   \<and> list_position (projr (fst (createList sampleDb ''u1'' ''b1'' ''Review'' ''l9''))) = 2
   \<and> createCard sampleDb ''u2'' ''b1'' ''l1'' ''New'' [] None ''c5''
     = (Inr (projr (fst (createCard sampleDb ''u2'' ''b1'' ''l1'' ''New'' [] None ''c5''))),
        snd (createCard sampleDb ''u2'' ''b1'' ''l1'' ''New'' [] None ''c5''))
   \<and> card_position (projr (fst (createCard sampleDb ''u2'' ''b1'' ''l1'' ''New'' [] None ''c5''))) = 1"
proof -
  have 1: "createList sampleDb ''u1'' ''b1'' ''Review'' ''l9''
     = (Inr (projr (fst (createList sampleDb ''u1'' ''b1'' ''Review'' ''l9''))),
        snd (createList sampleDb ''u1'' ''b1'' ''Review'' ''l9''))"
    by code_simp
  have 2: "createCard sampleDb ''u2'' ''b1'' ''l1'' ''New'' [] None ''c5''
     = (Inr (projr (fst (createCard sampleDb ''u2'' ''b1'' ''l1'' ''New'' [] None ''c5''))),
        snd (createCard sampleDb ''u2'' ''b1'' ''l1'' ''New'' [] None ''c5''))"
    by code_simp
  have n1: "int (length (filter (\<lambda>x. list_board x = ''b1'') (db_lists sampleDb))) = 2"
    by code_simp
  have n2: "int (length (filter (\<lambda>x. card_list x = ''l1'') (db_cards sampleDb))) = 1"
    by code_simp
  from created_position_is_sibling_count
    [where d = sampleDb and reqUser = "''u1''" and boardId = "''b1''" and name = "''Review''"
       and newId = "''l9''"] 1
  have p1: "list_position (projr (fst (createList sampleDb ''u1'' ''b1'' ''Review'' ''l9'')))
              = int (length (filter (\<lambda>x. list_board x = ''b1'') (db_lists sampleDb)))"
    by blast
  from created_position_is_sibling_count
    [where d = sampleDb and reqUser = "''u2''" and boardId = "''b1''" and listId = "''l1''"
       and title = "''New''" and description = "[]" and due = None and newId' = "''c5''"] 2
  have p2: "card_position (projr (fst (createCard sampleDb ''u2'' ''b1'' ''l1'' ''New'' [] None ''c5'')))
              = int (length (filter (\<lambda>x. card_list x = ''l1'') (db_cards sampleDb)))"
    by blast
  from 1 2 p1 p2 show ?thesis
    unfolding n1 n2 by blast
qed

subsection \<open>Moving a card\<close>

lemma moveCard_Inr:
  assumes "moveCard d reqUser cid newListId position = (Inr crd', d')"
  shows "\<exists>crd oldList newList.
           findById card_id (db_cards d) cid = Some crd
         \<and> findById list_id (db_lists d) (card_list crd) = Some oldList
         \<and> findById list_id (db_lists d) newListId = Some newList
         \<and> crd' = crd\<lparr>card_list := newListId,
                       card_position := (case position of None \<Rightarrow> 0
                                         | Some p \<Rightarrow> if p = 0 then 0 else p)\<rparr>
         \<and> db_lists d' =
             findByIdAndUpdate list_id newListId
               (\<lambda>l. l\<lparr>list_cards := list_cards l @ [card_id crd]\<rparr>)
               (findByIdAndUpdate list_id (list_id oldList)
                  (\<lambda>l. l\<lparr>list_cards := removeAll (card_id crd) (list_cards l)\<rparr>) (db_lists d))
         \<and> db_cards d' = saveDoc card_id crd' (db_cards d)"
  using assms
  by (auto simp: moveCard_def Let_def split: option.splits if_splits)

text \<open>
  C5. After a successful \<open>moveCard\<close> the card's \<open>list\<close> field is the destination
  list, the stored card is the returned one, the destination list holds the card, the
  list the card came from (when it is another list) no longer holds it, and without a
  position in the request the card's position is 0.
\<close>

theorem moveCard_transfers_card:
  assumes "moveCard d reqUser cid newListId position = (Inr crd', d')"
    and "findById card_id (db_cards d) cid = Some crd"
  shows "card_list crd' = newListId
         \<and> findById card_id (db_cards d') cid = Some crd'
         \<and> (\<exists>B. findById list_id (db_lists d') newListId = Some B \<and> cid \<in> set (list_cards B))
         \<and> (card_list crd \<noteq> newListId \<longrightarrow>
               (\<exists>A. findById list_id (db_lists d') (card_list crd) = Some A
                     \<and> cid \<notin> set (list_cards A)))
         \<and> (position = None \<longrightarrow> card_position crd' = 0)"
proof -
  from moveCard_Inr [OF assms(1)] assms(2)
  obtain oldList newList where
    old: "findById list_id (db_lists d) (card_list crd) = Some oldList" and
    new: "findById list_id (db_lists d) newListId = Some newList" and
    crd': "crd' = crd\<lparr>card_list := newListId,
                      card_position := (case position of None \<Rightarrow> 0
                                        | Some p \<Rightarrow> if p = 0 then 0 else p)\<rparr>" and
    lists: "db_lists d' =
             findByIdAndUpdate list_id newListId
               (\<lambda>l. l\<lparr>list_cards := list_cards l @ [card_id crd]\<rparr>)
               (findByIdAndUpdate list_id (list_id oldList)
                  (\<lambda>l. l\<lparr>list_cards := removeAll (card_id crd) (list_cards l)\<rparr>) (db_lists d))" and
    cards: "db_cards d' = saveDoc card_id crd' (db_cards d)"
    by auto
  have cid: "card_id crd = cid" using assms(2) by (rule findById_id)
  have oid: "list_id oldList = card_list crd" using old by (rule findById_id)
  have 1: "card_list crd' = newListId" by (simp add: crd')
  have "card_id crd' = cid" by (simp add: crd' cid)
  with assms(2) have 2: "findById card_id (db_cards d') cid = Some crd'"
    unfolding cards using findById_saveDoc [of card_id "db_cards d" crd' crd] by simp
  have 3: "\<exists>B. findById list_id (db_lists d') newListId = Some B \<and> cid \<in> set (list_cards B)"
  proof (cases "card_list crd = newListId")
    case True
    with old new show ?thesis
      unfolding lists oid by (simp add: findById_update_same cid)
  next
    case False
    with new show ?thesis
      unfolding lists oid by (simp add: findById_update_same findById_update_other cid)
  qed
  have 4: "\<exists>A. findById list_id (db_lists d') (card_list crd) = Some A \<and> cid \<notin> set (list_cards A)"
    if "card_list crd \<noteq> newListId"
    using that old unfolding lists oid
    by (simp add: findById_update_same findById_update_other cid)
  have 5: "card_position crd' = 0" if "position = None"
    using that by (simp add: crd')
  from 1 2 3 4 5 show ?thesis by blast
qed

theorem moveCard_transfers_card_witness:
  "moveCard sampleDb ''u2'' ''c1'' ''l2'' None
     = (Inr (projr (fst (moveCard sampleDb ''u2'' ''c1'' ''l2'' None))),
        snd (moveCard sampleDb ''u2'' ''c1'' ''l2'' None))
   \<and> findById card_id (db_cards sampleDb) ''c1'' = Some (sampleCard ''c1'' ''High'' ''Todo'' None)
   \<and> card_list (sampleCard ''c1'' ''High'' ''Todo'' None) \<noteq> ''l2''
   \<and> card_list (projr (fst (moveCard sampleDb ''u2'' ''c1'' ''l2'' None))) = ''l2''
   \<and> card_position (projr (fst (moveCard sampleDb ''u2'' ''c1'' ''l2'' None))) = 0
   \<and> (\<exists>B. findById list_id (db_lists (snd (moveCard sampleDb ''u2'' ''c1'' ''l2'' None))) ''l2''
             = Some B \<and> ''c1'' \<in> set (list_cards B))
   \<and> (\<exists>A. findById list_id (db_lists (snd (moveCard sampleDb ''u2'' ''c1'' ''l2'' None))) ''l1''
             = Some A \<and> ''c1'' \<notin> set (list_cards A))"
proof -
  have 1: "moveCard sampleDb ''u2'' ''c1'' ''l2'' None
     = (Inr (projr (fst (moveCard sampleDb ''u2'' ''c1'' ''l2'' None))),
        snd (moveCard sampleDb ''u2'' ''c1'' ''l2'' None))"
    by code_simp
  have 2: "findById card_id (db_cards sampleDb) ''c1''
             = Some (sampleCard ''c1'' ''High'' ''Todo'' None)"
    by code_simp
  have 3: "card_list (sampleCard ''c1'' ''High'' ''Todo'' None) \<noteq> ''l2''"
    by code_simp
  have 4: "card_list (sampleCard ''c1'' ''High'' ''Todo'' None) = ''l1''"
    by code_simp
  from moveCard_transfers_card [OF 1 2] 1 2 3 show ?thesis
    unfolding 4 by blast
qed

subsection \<open>Inviting a member\<close>

lemma invite_failure_unchanged:
  "fst (invite d reqUser boardId email) = Inl e \<Longrightarrow> snd (invite d reqUser boardId email) = d"
  by (auto simp: invite_def split: option.splits if_splits)

text \<open>
  C7, as amended. When the owner of the board invites a user who is already in
  \<open>board.members\<close>, the handler answers 400 "User already in board" (the Conflict
  case) and the database is unchanged. The same invitation by anyone but the owner is
  refused before the membership test, with 403; every refused invitation leaves the
  database unchanged.
\<close>

theorem invite_existing_member:
  "(findById board_id (db_boards d) boardId = Some b \<and> board_owner b = reqUser
      \<and> find (\<lambda>u. user_email u = email) (db_users d) = Some u
      \<and> user_id u \<in> set (board_members b)
      \<longrightarrow> invite d reqUser boardId email = (Inl (Failure 400 ''User already in board''), d))
   \<and> (findById board_id (db_boards d) boardId = Some b \<and> board_owner b \<noteq> reqUser
      \<longrightarrow> invite d reqUser boardId email
            = (Inl (Failure 403 ''Only board owner can invite users''), d))
   \<and> (fst (invite d reqUser boardId email) = Inl e
      \<longrightarrow> snd (invite d reqUser boardId email) = d)"
proof (intro conjI impI)
  assume "findById board_id (db_boards d) boardId = Some b \<and> board_owner b = reqUser
            \<and> find (\<lambda>u. user_email u = email) (db_users d) = Some u
            \<and> user_id u \<in> set (board_members b)"
  then show "invite d reqUser boardId email = (Inl (Failure 400 ''User already in board''), d)"
    by (simp add: invite_def)
next
  assume "findById board_id (db_boards d) boardId = Some b \<and> board_owner b \<noteq> reqUser"
  then show "invite d reqUser boardId email
               = (Inl (Failure 403 ''Only board owner can invite users''), d)"
    by (simp add: invite_def)
next
  assume "fst (invite d reqUser boardId email) = Inl e"
  then show "snd (invite d reqUser boardId email) = d"
    by (rule invite_failure_unchanged)
qed

theorem invite_existing_member_witness:
  "map_option board_owner (findById board_id (db_boards sampleDb) ''b1'') = Some ''u1''
   \<and> map_option user_id (find (\<lambda>u. user_email u = ''bob@example.com'') (db_users sampleDb))
       = Some ''u2''
   \<and> map_option board_members (findById board_id (db_boards sampleDb) ''b1'')
       = Some [''u1'', ''u2'']
   \<and> invite sampleDb ''u1'' ''b1'' ''bob@example.com''
       = (Inl (Failure 400 ''User already in board''), sampleDb)"
proof -
  define b where "b = \<lparr> board_id = ''b1'', board_name = ''Work'', board_description = [],
      board_owner = ''u1'', board_members = [''u1'', ''u2''], board_lists = [''l1'', ''l2''] \<rparr>"
  define u where "u = \<lparr> user_id = ''u2'', user_name = ''Bob'', user_email = ''bob@example.com'' \<rparr>"
  have 1: "findById board_id (db_boards sampleDb) ''b1'' = Some b"
    unfolding b_def by code_simp
  have 2: "board_owner b = ''u1''" by (simp add: b_def)
  have 3: "find (\<lambda>u. user_email u = ''bob@example.com'') (db_users sampleDb) = Some u"
    unfolding u_def by code_simp
  have 4: "user_id u \<in> set (board_members b)" by (simp add: b_def u_def)
  from invite_existing_member [of sampleDb "''b1''" b "''u1''" "''bob@example.com''" u] 1 2 3 4
  have "invite sampleDb ''u1'' ''b1'' ''bob@example.com''
          = (Inl (Failure 400 ''User already in board''), sampleDb)"
    by blast
  then show ?thesis
    by (simp add: 1 3) (simp add: b_def u_def)
qed

theorem invite_member_by_non_owner_counterexample:
  "map_option board_owner (findById board_id (db_boards sampleDb) ''b1'') = Some ''u1''
   \<and> map_option user_id (find (\<lambda>u. user_email u = ''bob@example.com'') (db_users sampleDb))
       = Some ''u2''
   \<and> map_option board_members (findById board_id (db_boards sampleDb) ''b1'')
       = Some [''u1'', ''u2'']
   \<and> invite sampleDb ''u2'' ''b1'' ''bob@example.com''
       = (Inl (Failure 403 ''Only board owner can invite users''), sampleDb)"
  by code_simp

subsection \<open>Documents that do not exist\<close>

text \<open>
  C9, as amended. A missing document is answered with 404 by \<open>getBoard\<close> (the
  board), by \<open>invite\<close> (the board; the invited user, when the requester is the owner
  of the board), by \<open>createCard\<close> (board, list, or a list of another board), by
  \<open>moveCard\<close> (the card; with the destination list present, the card's own list or
  the destination's board) and by \<open>patchCard\<close> (the card).
  \<open>createList\<close> and \<open>getRecommendations\<close> test the board together with the access
  rule and answer 403 "Access denied" for a board that does not exist.
\<close>

theorem missing_documents:
  "(findById board_id (db_boards d) boardId = None
      \<longrightarrow> getBoard d reqUser boardId = Inl (Failure 404 ''Board not found'')
           \<and> invite d reqUser boardId email = (Inl (Failure 404 ''Board not found''), d)
           \<and> createList d reqUser boardId name newId = (Inl (Failure 403 ''Access denied''), d)
           \<and> getRecommendations d reqUser boardId now = Inl (Failure 403 ''Access denied''))
   \<and> (findById board_id (db_boards d) boardId = Some b \<and> board_owner b = reqUser
        \<and> find (\<lambda>u. user_email u = email) (db_users d) = None
      \<longrightarrow> invite d reqUser boardId email = (Inl (Failure 404 ''User not found''), d))
   \<and> (findById board_id (db_boards d) boardId = None
        \<or> findById list_id (db_lists d) listId = None
        \<or> map_option list_board (findById list_id (db_lists d) listId) \<noteq> Some boardId
      \<longrightarrow> createCard d reqUser boardId listId title description due newId'
            = (Inl (Failure 404 ''Board or list not found''), d))
   \<and> (findById card_id (db_cards d) cid = None
      \<longrightarrow> moveCard d reqUser cid newListId position = (Inl (Failure 404 ''Card not found''), d)
           \<and> patchCard d reqUser cid updates = (Inl (Failure 404 ''Card not found''), d))
   \<and> (findById card_id (db_cards d) cid = Some crd
        \<and> findById list_id (db_lists d) newListId = Some newList
        \<and> (findById list_id (db_lists d) (card_list crd) = None
             \<or> findById board_id (db_boards d) (list_board newList) = None)
      \<longrightarrow> moveCard d reqUser cid newListId position
            = (Inl (Failure 404 ''List or board not found''), d))"
proof (intro conjI impI)
  assume "findById board_id (db_boards d) boardId = None"
  then show "getBoard d reqUser boardId = Inl (Failure 404 ''Board not found'')"
    and "invite d reqUser boardId email = (Inl (Failure 404 ''Board not found''), d)"
    and "createList d reqUser boardId name newId = (Inl (Failure 403 ''Access denied''), d)"
    and "getRecommendations d reqUser boardId now = Inl (Failure 403 ''Access denied'')"
    by (simp_all add: getBoard_def invite_def createList_def getRecommendations_def)
next
  assume "findById board_id (db_boards d) boardId = Some b \<and> board_owner b = reqUser
            \<and> find (\<lambda>u. user_email u = email) (db_users d) = None"
  then show "invite d reqUser boardId email = (Inl (Failure 404 ''User not found''), d)"
    by (simp add: invite_def)
next
  assume "findById board_id (db_boards d) boardId = None
            \<or> findById list_id (db_lists d) listId = None
            \<or> map_option list_board (findById list_id (db_lists d) listId) \<noteq> Some boardId"
  then show "createCard d reqUser boardId listId title description due newId'
               = (Inl (Failure 404 ''Board or list not found''), d)"
    by (auto simp: createCard_def split: option.splits)
next
  assume "findById card_id (db_cards d) cid = None"
  then show "moveCard d reqUser cid newListId position = (Inl (Failure 404 ''Card not found''), d)"
    and "patchCard d reqUser cid updates = (Inl (Failure 404 ''Card not found''), d)"
    by (simp_all add: moveCard_def patchCard_def)
next
  assume "findById card_id (db_cards d) cid = Some crd
            \<and> findById list_id (db_lists d) newListId = Some newList
            \<and> (findById list_id (db_lists d) (card_list crd) = None
                 \<or> findById board_id (db_boards d) (list_board newList) = None)"
  then show "moveCard d reqUser cid newListId position
               = (Inl (Failure 404 ''List or board not found''), d)"
    by (auto simp: moveCard_def split: option.splits)
qed

theorem missing_documents_witness:
  "getBoard sampleDb ''u1'' ''b9'' = Inl (Failure 404 ''Board not found'')
   \<and> invite sampleDb ''u1'' ''b9'' ''bob@example.com''
       = (Inl (Failure 404 ''Board not found''), sampleDb)
   \<and> createList sampleDb ''u1'' ''b9'' ''Ideas'' ''l9''
       = (Inl (Failure 403 ''Access denied''), sampleDb)
   \<and> getRecommendations sampleDb ''u1'' ''b9'' sampleNow = Inl (Failure 403 ''Access denied'')
   \<and> invite sampleDb ''u1'' ''b1'' ''zed@example.com''
       = (Inl (Failure 404 ''User not found''), sampleDb)
   \<and> createCard sampleDb ''u1'' ''b9'' ''l1'' ''New'' [] None ''c5''
       = (Inl (Failure 404 ''Board or list not found''), sampleDb)
   \<and> moveCard sampleDb ''u1'' ''c9'' ''l2'' None
       = (Inl (Failure 404 ''Card not found''), sampleDb)
   \<and> patchCard sampleDb ''u1'' ''c9'' markDone
       = (Inl (Failure 404 ''Card not found''), sampleDb)
   \<and> moveCard sampleDb ''u1'' ''c7'' ''l2'' None
       = (Inl (Failure 404 ''List or board not found''), sampleDb)"
proof -
  define b where "b = \<lparr> board_id = ''b1'', board_name = ''Work'', board_description = [],
      board_owner = ''u1'', board_members = [''u1'', ''u2''], board_lists = [''l1'', ''l2''] \<rparr>"
  define crd where "crd = (sampleCard ''c7'' ''Low'' ''Todo'' None)\<lparr>card_list := ''l7''\<rparr>"
  define newList where "newList = \<lparr> list_id = ''l2'', list_name = ''Done'', list_board = ''b1'',
      list_position = 1, list_cards = [] \<rparr>"
  have noBoard: "findById board_id (db_boards sampleDb) ''b9'' = None" by code_simp
  have noCard: "findById card_id (db_cards sampleDb) ''c9'' = None" by code_simp
  have board: "findById board_id (db_boards sampleDb) ''b1'' = Some b"
    unfolding b_def by code_simp
  have owner: "board_owner b = ''u1''" by (simp add: b_def)
  have noUser: "find (\<lambda>u. user_email u = ''zed@example.com'') (db_users sampleDb) = None"
    by code_simp
  have card: "findById card_id (db_cards sampleDb) ''c7'' = Some crd"
    unfolding crd_def by code_simp
  have dest: "findById list_id (db_lists sampleDb) ''l2'' = Some newList"
    unfolding newList_def by code_simp
  have noList: "findById list_id (db_lists sampleDb) (card_list crd) = None"
    unfolding crd_def by code_simp
  from missing_documents
    [where d = sampleDb and boardId = "''b9''" and reqUser = "''u1''"
       and email = "''bob@example.com''" and name = "''Ideas''" and newId = "''l9''"
       and newId' = "''c5''" and now = sampleNow and listId = "''l1''" and title = "''New''" and description = "[]"
       and due = None and cid = "''c9''" and newListId = "''l2''" and position = None
       and updates = markDone]
    noBoard noCard
  have first: "getBoard sampleDb ''u1'' ''b9'' = Inl (Failure 404 ''Board not found'')
     \<and> invite sampleDb ''u1'' ''b9'' ''bob@example.com''
         = (Inl (Failure 404 ''Board not found''), sampleDb)
     \<and> createList sampleDb ''u1'' ''b9'' ''Ideas'' ''l9''
         = (Inl (Failure 403 ''Access denied''), sampleDb)
     \<and> getRecommendations sampleDb ''u1'' ''b9'' sampleNow = Inl (Failure 403 ''Access denied'')
     \<and> createCard sampleDb ''u1'' ''b9'' ''l1'' ''New'' [] None ''c5''
         = (Inl (Failure 404 ''Board or list not found''), sampleDb)
     \<and> moveCard sampleDb ''u1'' ''c9'' ''l2'' None
         = (Inl (Failure 404 ''Card not found''), sampleDb)
     \<and> patchCard sampleDb ''u1'' ''c9'' markDone
         = (Inl (Failure 404 ''Card not found''), sampleDb)"
    by blast
  from missing_documents
    [where d = sampleDb and boardId = "''b1''" and b = b and reqUser = "''u1''"
       and email = "''zed@example.com''" and cid = "''c7''" and crd = crd
       and newListId = "''l2''" and newList = newList and position = None]
    board owner noUser card dest noList
  have second: "invite sampleDb ''u1'' ''b1'' ''zed@example.com''
         = (Inl (Failure 404 ''User not found''), sampleDb)
     \<and> moveCard sampleDb ''u1'' ''c7'' ''l2'' None
         = (Inl (Failure 404 ''List or board not found''), sampleDb)"
    by blast
  from first second show ?thesis by blast
qed

theorem createList_missing_board_counterexample:
  "findById board_id (db_boards sampleDb) ''b9'' = None
   \<and> createList sampleDb ''u1'' ''b9'' ''Ideas'' ''l9''
       = (Inl (Failure 403 ''Access denied''), sampleDb)
   \<and> getRecommendations sampleDb ''u1'' ''b9'' sampleNow = Inl (Failure 403 ''Access denied'')"
  by code_simp

subsection \<open>The owner and the access test\<close>

lemma owner_canAccess: "canAccess b (board_owner b)"
  by (simp add: canAccess_def accessDenied_def)

lemma owner_not_denied:
  assumes "findById board_id (db_boards d) boardId = Some b" and "board_owner b = reqUser"
  shows "fst (createList d reqUser boardId name newId) \<noteq> Inl (Failure 403 ''Access denied'')"
    and "fst (createCard d reqUser boardId listId title description due newId')
           \<noteq> Inl (Failure 403 ''Access denied'')"
    and "getRecommendations d reqUser boardId now \<noteq> Inl (Failure 403 ''Access denied'')"
  using assms
  by (auto simp: createList_def createCard_def getRecommendations_def accessDenied_def Let_def
      serverError_def split: option.splits sum.splits)

lemma moveCard_denied_only_for_others:
  assumes "fst (moveCard d reqUser cid newListId position) = Inl (Failure 403 ''Access denied'')"
  shows "\<exists>newList b. findById list_id (db_lists d) newListId = Some newList
           \<and> findById board_id (db_boards d) (list_board newList) = Some b
           \<and> board_owner b \<noteq> reqUser"
  using assms
  by (auto simp: moveCard_def accessDenied_def Let_def serverError_def
      split: option.splits if_splits)

lemma documentToString_not_id:
  "\<forall>s. reqUser \<noteq> CHR ''{'' # s \<Longrightarrow> documentToString u \<noteq> reqUser"
  by (auto simp: documentToString_def)

lemma populated_member_ids:
  "m \<in> set (List.map_filter (findById user_id users) ids) \<Longrightarrow> user_id m \<in> set ids"
  by (auto simp: List.map_filter_def dest: findById_id)

text \<open>
  In general: \<open>getBoard\<close> refuses the owner of any board whose member list does not
  name the owner (an ObjectId never starts with a brace).
\<close>

lemma getBoard_owner_outside_members:
  assumes "findById board_id (db_boards d) boardId = Some b"
    and "findById user_id (db_users d) (board_owner b) = Some ownerDoc"
    and "board_owner b \<notin> set (board_members b)"
    and "\<forall>s. board_owner b \<noteq> CHR ''{'' # s"
  shows "getBoard d (board_owner b) boardId = Inl (Failure 403 ''Access denied'')"
proof -
  have "documentToString ownerDoc \<noteq> board_owner b"
    using assms(4) by (rule documentToString_not_id)
  moreover have "\<not> list_ex (\<lambda>m. user_id m = board_owner b)
                    (List.map_filter (findById user_id (db_users d)) (board_members b))"
    using assms(3) populated_member_ids [of _ "db_users d" "board_members b"]
    unfolding list_ex_iff by metis
  ultimately show ?thesis
    using assms(1,2) by (simp add: getBoard_def Let_def)
qed

text \<open>
  C8 at GET /:id. The board b4 of the sample database is owned by u1 and has no
  members. The access rule admits u1, and \<open>createList\<close> lets u1 in; \<open>getBoard\<close>,
  which compares the populated owner document's rendering with the requester's
  identifier, answers 403 to the owner.
\<close>

theorem getBoard_denies_owner_outside_members:
  "map_option board_owner (findById board_id (db_boards sampleDb) ''b4'') = Some ''u1''
   \<and> map_option board_members (findById board_id (db_boards sampleDb) ''b4'') = Some []
   \<and> map_option (\<lambda>b. canAccess b ''u1'') (findById board_id (db_boards sampleDb) ''b4'')
       = Some True
   \<and> getBoard sampleDb ''u1'' ''b4'' = Inl (Failure 403 ''Access denied'')
   \<and> fst (createList sampleDb ''u1'' ''b4'' ''Ideas'' ''l9'')
       = Inr \<lparr> list_id = ''l9'', list_name = ''Ideas'', list_board = ''b4'', list_position = 0,
               list_cards = [] \<rparr>"
  by code_simp

end
